theory Spec2Isabelle
  imports Complex_Main
begin

section \<open>Little-Movie-Recommender: the hybrid scoring and ranking engine\<close>

text \<open>
  A shallow embedding of \<^verbatim>\<open>recommender_history.py\<close>, \<^verbatim>\<open>recommender_prefs.py\<close>,
  \<^verbatim>\<open>hybrid_recommender.py\<close> and \<^verbatim>\<open>app.py\<close>.

  Conventions. A finite Python float is a \<^typ>\<open>real\<close>: rounding is not modelled. NaN, which
  pandas also uses for a missing value (None, NULL), is the \<^term>\<open>None\<close> of an
  \<^typ>\<open>'a option\<close>. Overflow to an infinity is modelled where a float can leave the finite
  range on well-formed input: in \<^verbatim>\<open>min_max_normalize\<close>, whose differences can exceed the
  largest double, and for the weight alpha, which \<^verbatim>\<open>float\<close> reads from a request field
  and which may be nan or an infinity. A pandas Series is the list of its values in row
  order; a DataFrame is the list of its rows. A raised exception is the \<^term>\<open>Inl\<close> branch
  of a sum.
\<close>

subsection \<open>Floats beyond the finite range\<close>

text \<open>A float as \<^verbatim>\<open>float\<close> can return it: a finite number, an infinity or nan.\<close>

datatype pyfloat = Finite real | PosInf | NegInf | NaN

text \<open>
  IEEE 754 binary64 with rounding to nearest: the largest double is \<open>2^1024 - 2^971\<close>, and
  an exact result of magnitude \<open>2^1024 - 2^970\<close> or more rounds to an infinity.
\<close>

definition overflow_threshold :: real where
  "overflow_threshold = 2 ^ 1024 - 2 ^ 970"

definition overflows :: "real \<Rightarrow> bool" where
  "overflows v = (overflow_threshold \<le> \<bar>v\<bar>)"

definition round_overflow :: "real \<Rightarrow> pyfloat" where
  "round_overflow v =
     (if overflow_threshold \<le> v then PosInf
      else if v \<le> - overflow_threshold then NegInf else Finite v)"

subsection \<open>The store\<close>

text \<open>
  The PostgreSQL database is the only shared state. The engine reads the table
  \<^verbatim>\<open>ratings\<close> and the views \<^verbatim>\<open>movie_features\<close> and \<^verbatim>\<open>movie_features_with_links\<close>; a table
  is the list of its rows in the order the queries return them.
\<close>

record rating_row =
  r_user_id :: int
  r_movie_id :: int
  r_rating :: real

record movie_row =
  movie_id :: int
  title :: string
  genres :: string
  year :: "int option"
  avg_rating :: "real option"
  num_ratings :: nat
  is_action :: bool
  is_comedy :: bool
  is_drama :: bool
  is_horror :: bool
  is_romance :: bool
  is_scifi :: bool
  is_animation :: bool
  tmdb_id :: "int option"

record store =
  ratings :: "rating_row list"
  movie_features :: "movie_row list"
  movie_features_with_links :: "movie_row list"

text \<open>
  The exceptions of the engine. The source raises \<^verbatim>\<open>ValueError\<close> with four different
  messages; each message is a constructor, named as the error taxonomy names it:
  \<^item> \<open>NoHistoryError\<close>: \<^verbatim>\<open>user_id ... has no ratings\<close>;
  \<^item> \<open>InsufficientDataError\<close>: \<^verbatim>\<open>Not enough overlapping data to build local matrix\<close>;
  \<^item> \<open>NoSignalError\<close>: \<^verbatim>\<open>No positive scored movies found for this user\<close>;
  \<^item> \<open>NoCandidatesError\<close>: \<^verbatim>\<open>No candidates left after min_ratings filter\<close>.
  \<open>RowKeyError\<close> is the \<^verbatim>\<open>KeyError\<close> of \<^verbatim>\<open>rating_matrix.loc[user_id]\<close> and \<open>GenreKeyError\<close>
  the \<^verbatim>\<open>KeyError\<close> of \<^verbatim>\<open>genre_map[g]\<close>.
\<close>

datatype error =
    NoHistoryError
  | InsufficientDataError
  | NoSignalError
  | NoCandidatesError
  | RowKeyError int
  | GenreKeyError string

subsection \<open>Neighbourhood builder (\<^verbatim>\<open>_build_local_matrix\<close>)\<close>

text \<open>
  \<^verbatim>\<open>pivot_table(index="user_id", columns="movie_id", values="rating")\<close>: the row and
  column labels are the sorted distinct keys, a cell is the mean of the ratings with
  that key pair and is missing when there is none.
\<close>

record rating_matrix =
  row_index :: "int list"
  columns :: "int list"
  cell :: "int \<Rightarrow> int \<Rightarrow> real option"

definition mean_of :: "real list \<Rightarrow> real option" where
  "mean_of vs = (if vs = [] then None else Some (sum_list vs / real (length vs)))"

definition pivot_table :: "rating_row list \<Rightarrow> rating_matrix" where
  "pivot_table rows =
     \<lparr> row_index = sort (remdups (map r_user_id rows)),
       columns = sort (remdups (map r_movie_id rows)),
       cell = (\<lambda>u m. mean_of (map r_rating
                 (filter (\<lambda>r. r_user_id r = u \<and> r_movie_id r = m) rows))) \<rparr>"

text \<open>\<^verbatim>\<open>rating_matrix.fillna(0)\<close>.\<close>

definition fillna0 :: "rating_matrix \<Rightarrow> int \<Rightarrow> int \<Rightarrow> real" where
  "fillna0 M u m = (case cell M u m of None \<Rightarrow> 0 | Some v \<Rightarrow> v)"

text \<open>\<^verbatim>\<open>ratings_local["movie_id"].value_counts()\<close> at one movie.\<close>

definition movie_counts :: "rating_row list \<Rightarrow> int \<Rightarrow> nat" where
  "movie_counts rows m = length (filter (\<lambda>r. r_movie_id r = m) rows)"

text \<open>
  The neighbour query is \<^verbatim>\<open>SELECT DISTINCT user_id ... LIMIT max_neighbors\<close> with no
  \<^verbatim>\<open>ORDER BY\<close>: which users survive the limit is left to the database. The model
  keeps the first \<open>max_neighbors\<close> distinct users in table order.
\<close>

definition neighbor_ids :: "store \<Rightarrow> int \<Rightarrow> int list \<Rightarrow> nat \<Rightarrow> int list" where
  "neighbor_ids st uid rated_ids max_neighbors =
     take max_neighbors (remdups (map r_user_id
       (filter (\<lambda>r. r_movie_id r \<in> set rated_ids \<and> r_user_id r \<noteq> uid) (ratings st))))"

text \<open>The rows of \<^verbatim>\<open>ratings_local\<close> after the local minimum-support filter.\<close>

definition ratings_local :: "store \<Rightarrow> int \<Rightarrow> nat \<Rightarrow> nat \<Rightarrow> rating_row list" where
  "ratings_local st uid max_neighbors min_movie_ratings =
     (let user_ratings = filter (\<lambda>r. r_user_id r = uid) (ratings st);
          rated_ids = map r_movie_id user_ratings;
          all_users = neighbor_ids st uid rated_ids max_neighbors @ [uid];
          all_users = (if all_users = [] then [uid] else all_users);
          local = filter (\<lambda>r. r_user_id r \<in> set all_users) (ratings st)
      in filter (\<lambda>r. min_movie_ratings \<le> movie_counts local (r_movie_id r)) local)"

definition build_local_matrix ::
  "store \<Rightarrow> int \<Rightarrow> nat \<Rightarrow> nat \<Rightarrow> error + (rating_matrix \<times> (int \<Rightarrow> int \<Rightarrow> real))" where
  "build_local_matrix st uid max_neighbors min_movie_ratings =
     (if filter (\<lambda>r. r_user_id r = uid) (ratings st) = [] then Inl NoHistoryError
      else let local = ratings_local st uid max_neighbors min_movie_ratings in
        if local = [] then Inl InsufficientDataError
        else let rating_matrix = pivot_table local
             in Inr (rating_matrix, fillna0 rating_matrix))"

subsection \<open>History scorer (\<^verbatim>\<open>recommend_from_history\<close>)\<close>

text \<open>
  \<^verbatim>\<open>sklearn.metrics.pairwise.cosine_similarity\<close> on the transposed zero-filled matrix:
  every item vector is divided by its Euclidean norm (a zero norm is replaced by 1),
  and the similarity of two items is the dot product of the scaled vectors.
\<close>

definition item_vector :: "(int \<Rightarrow> int \<Rightarrow> real) \<Rightarrow> int list \<Rightarrow> int \<Rightarrow> real list" where
  "item_vector filled users m = map (\<lambda>u. filled u m) users"

definition l2_norm :: "real list \<Rightarrow> real" where
  "l2_norm v = sqrt (sum_list (map (\<lambda>x. x * x) v))"

definition normalize :: "real list \<Rightarrow> real list" where
  "normalize v = (let n = l2_norm v; n = (if n = 0 then 1 else n) in map (\<lambda>x. x / n) v)"

definition dot :: "real list \<Rightarrow> real list \<Rightarrow> real" where
  "dot v w = sum_list (map2 (*) v w)"

definition cosine_similarity :: "(int \<Rightarrow> int \<Rightarrow> real) \<Rightarrow> int list \<Rightarrow> int \<Rightarrow> int \<Rightarrow> real" where
  "cosine_similarity filled users i j =
     dot (normalize (item_vector filled users i)) (normalize (item_vector filled users j))"

text \<open>\<^verbatim>\<open>rating_matrix.loc[user_id].dropna()\<close>: the user's ratings inside the matrix.\<close>

definition rated_of :: "rating_matrix \<Rightarrow> int \<Rightarrow> (int \<times> real) list" where
  "rated_of M uid =
     concat (map (\<lambda>m. case cell M uid m of None \<Rightarrow> [] | Some v \<Rightarrow> [(m, v)]) (columns M))"

text \<open>
  The propagation loop. \<open>scores\<close> is the Series indexed by \<open>movie_ids\<close>; one round adds
  the column \<^verbatim>\<open>sim_df[movie_id]\<close>, scaled by the rating's distance from the neutral 3.
\<close>

fun spread ::
  "(int \<Rightarrow> int \<Rightarrow> real) \<Rightarrow> int list \<Rightarrow> (int \<times> real) list \<Rightarrow> (int \<times> real) list
   \<Rightarrow> (int \<times> real) list" where
  "spread sim_df movie_ids [] scores = scores"
| "spread sim_df movie_ids ((m, rating) # rest) scores =
     (let rating_delta = rating - 3 in
      if m \<notin> set movie_ids then spread sim_df movie_ids rest scores
      else spread sim_df movie_ids rest
             (map (\<lambda>(j, s). (j, s + sim_df j m * rating_delta)) scores))"

text \<open>Steps 2 and 3 of the scorer up to the positive-score filter: the frame
  \<^verbatim>\<open>score_df\<close> before the join with the catalogue.\<close>

definition score_df :: "rating_matrix \<Rightarrow> (int \<Rightarrow> int \<Rightarrow> real) \<Rightarrow> int \<Rightarrow> (int \<times> real) list" where
  "score_df M filled uid =
     (let movie_ids = columns M;
          sim_df = cosine_similarity filled (row_index M);
          rated = rated_of M uid;
          rated_movie_ids = map fst rated;
          scores = map (\<lambda>m. (m, 0)) movie_ids;
          scores = spread sim_df movie_ids rated scores;
          scores = filter (\<lambda>(j, s). j \<notin> set rated_movie_ids) scores
      in filter (\<lambda>(j, s). s > 0) scores)"

record history_row =
  h_movie_id :: int
  h_title :: string
  h_genres :: string
  score :: real
  h_avg_rating :: "real option"
  h_num_ratings :: nat

text \<open>\<^verbatim>\<open>score_df.join(movie_stats, how="inner")\<close>: the order of the scored items is kept,
  an item absent from the catalogue is dropped.\<close>

definition join_stats :: "(int \<times> real) list \<Rightarrow> movie_row list \<Rightarrow> history_row list" where
  "join_stats scored movie_stats =
     concat (map (\<lambda>(j, s).
        map (\<lambda>mv. \<lparr> h_movie_id = j, h_title = title mv, h_genres = genres mv, score = s,
                    h_avg_rating = avg_rating mv, h_num_ratings = num_ratings mv \<rparr>)
            (filter (\<lambda>mv. movie_id mv = j) movie_stats)) scored)"

text \<open>\<^verbatim>\<open>sort_values(key, ascending=False)\<close>. pandas leaves the order of equal keys to
  its sort algorithm; the model keeps them in frame order.\<close>

definition sort_desc :: "('a \<Rightarrow> real) \<Rightarrow> 'a list \<Rightarrow> 'a list" where
  "sort_desc key xs = sort_key (\<lambda>x. - key x) xs"

definition recommend_from_history ::
  "store \<Rightarrow> int \<Rightarrow> nat \<Rightarrow> nat \<Rightarrow> error + history_row list" where
  "recommend_from_history st uid top_n min_ratings =
     (case build_local_matrix st uid 3000 5 of
        Inl e \<Rightarrow> Inl e
      | Inr (rating_matrix, rating_matrix_filled) \<Rightarrow>
          if uid \<notin> set (row_index rating_matrix) then Inl (RowKeyError uid)
          else if rated_of rating_matrix uid = [] then Inl NoHistoryError
          else let scored = score_df rating_matrix rating_matrix_filled uid in
            if scored = [] then Inl NoSignalError
            else let joined = join_stats scored (movie_features_with_links st);
                     kept = filter (\<lambda>h. min_ratings \<le> h_num_ratings h) joined in
              if kept = [] then Inl NoCandidatesError
              else Inr (take top_n (sort_desc score kept)))"

subsection \<open>Normalisation and fusion (\<^verbatim>\<open>min_max_normalize\<close>, the final score)\<close>

primrec dropna :: "'a option list \<Rightarrow> 'a list" where
  "dropna [] = []"
| "dropna (x # xs) = (case x of None \<Rightarrow> dropna xs | Some v \<Rightarrow> v # dropna xs)"

text \<open>\<^verbatim>\<open>Series.min()\<close> and \<^verbatim>\<open>Series.max()\<close> skip missing values and are NaN when
  nothing is left.\<close>

definition series_min :: "real option list \<Rightarrow> real option" where
  "series_min s = (if dropna s = [] then None else Some (Min (set (dropna s))))"

definition series_max :: "real option list \<Rightarrow> real option" where
  "series_max s = (if dropna s = [] then None else Some (Max (set (dropna s))))"

text \<open>
  The same function is defined in \<^verbatim>\<open>hybrid_recommender.py\<close> and in \<^verbatim>\<open>app.py\<close>. The
  entries of the series are finite or missing. When \<^verbatim>\<open>s_max - s_min\<close> overflows it is
  \<open>inf\<close>, and the quotient of an entry is \<open>inf / inf\<close>, that is nan, if \<^verbatim>\<open>s - s_min\<close>
  overflows for it too, and a finite number over \<open>inf\<close>, that is 0, otherwise. When
  \<^verbatim>\<open>s_max - s_min\<close> is finite so is every \<^verbatim>\<open>s - s_min\<close>, which lies between 0 and it.
\<close>

definition min_max_normalize :: "real option list \<Rightarrow> real option list" where
  "min_max_normalize s =
     (case (series_min s, series_max s) of
        (Some s_min, Some s_max) \<Rightarrow>
          if s_max = s_min then map (\<lambda>_. Some 0) s
          else if overflows (s_max - s_min)
          then map (\<lambda>x. case x of
                            None \<Rightarrow> None
                          | Some v \<Rightarrow> if overflows (v - s_min) then None else Some 0) s
          else map (map_option (\<lambda>x. (x - s_min) / (s_max - s_min))) s
      | _ \<Rightarrow> map (\<lambda>_. Some 0) s)"

text \<open>\<^verbatim>\<open>alpha * pref_norm + (1.0 - alpha) * history_norm\<close>.\<close>

definition blend :: "real \<Rightarrow> real \<Rightarrow> real \<Rightarrow> real" where
  "blend alpha pref_norm history_norm = alpha * pref_norm + (1 - alpha) * history_norm"

subsection \<open>Preference scorer (\<^verbatim>\<open>recommender_prefs.py\<close>)\<close>

text \<open>
  The seven genre flag columns \<^verbatim>\<open>is_action\<close> ... \<^verbatim>\<open>is_animation\<close> of the views, as
  column labels. Every key of a \<^verbatim>\<open>genre_weights\<close> dictionary the repository builds is
  one of them, and the views carry all seven, so the test \<^verbatim>\<open>col in df.columns\<close> of
  the scorer holds for every key.
\<close>

datatype genre_col =
  ColAction | ColComedy | ColDrama | ColHorror | ColRomance | ColScifi | ColAnimation

fun flag :: "genre_col \<Rightarrow> movie_row \<Rightarrow> bool" where
  "flag ColAction r = is_action r"
| "flag ColComedy r = is_comedy r"
| "flag ColDrama r = is_drama r"
| "flag ColHorror r = is_horror r"
| "flag ColRomance r = is_romance r"
| "flag ColScifi r = is_scifi r"
| "flag ColAnimation r = is_animation r"

text \<open>The \<^verbatim>\<open>prefs\<close> dictionary; \<^verbatim>\<open>genre_weights\<close> in insertion order.\<close>

record prefs =
  genre_weights :: "(genre_col \<times> real) list"
  year_min :: int
  popularity_pref :: string

text \<open>\<^verbatim>\<open>scores += delta\<close> on aligned Series: a missing score stays missing.\<close>

definition add_series :: "real option list \<Rightarrow> real list \<Rightarrow> real option list" where
  "add_series scores delta = map2 (\<lambda>s x. map_option (\<lambda>v. v + x) s) scores delta"

definition log1p :: "real \<Rightarrow> real" where
  "log1p x = ln (1 + x)"

text \<open>The loop over \<^verbatim>\<open>prefs["genre_weights"].items()\<close>, threading
  \<^verbatim>\<open>selected_cols\<close> and \<^verbatim>\<open>scores\<close>.\<close>

fun genre_boosts ::
  "movie_row list \<Rightarrow> (genre_col \<times> real) list \<Rightarrow> genre_col list \<times> real option list
   \<Rightarrow> genre_col list \<times> real option list" where
  "genre_boosts df [] acc = acc"
| "genre_boosts df ((col, weight) # rest) (selected_cols, scores) =
     (if weight \<noteq> 0
      then genre_boosts df rest
             (selected_cols @ [col],
              add_series scores (map (\<lambda>r. (if flag col r then 1 else 0) * weight) df))
      else genre_boosts df rest (selected_cols, scores))"

text \<open>\<^verbatim>\<open>df[selected_cols].sum(axis=1) > 0\<close>.\<close>

definition genre_match :: "genre_col list \<Rightarrow> movie_row \<Rightarrow> bool" where
  "genre_match selected_cols r = (0 < length (filter (\<lambda>c. flag c r) selected_cols))"

text \<open>\<^verbatim>\<open>df["year"] >= prefs["year_min"]\<close>; a comparison with a missing year is false.\<close>

definition mask_year :: "int \<Rightarrow> movie_row \<Rightarrow> bool" where
  "mask_year ymin r = (case year r of None \<Rightarrow> False | Some y \<Rightarrow> ymin \<le> y)"

definition score_by_preferences :: "movie_row list \<Rightarrow> prefs \<Rightarrow> real option list" where
  "score_by_preferences df p =
     (let scores = map avg_rating df;
          (selected_cols, scores) = genre_boosts df (genre_weights p) ([], scores);
          scores = (if selected_cols \<noteq> []
                    then map2 (\<lambda>s r. if genre_match selected_cols r then s
                                       else map_option (\<lambda>v. v - 3) s) scores df
                    else scores);
          scores = map2 (\<lambda>s r. if mask_year (year_min p) r then s
                                 else map_option (\<lambda>v. v - 2) s) scores df;
          pop = map (\<lambda>r. real (num_ratings r)) df;
          log_pop = map log1p pop
      in if popularity_pref p = ''popular'' then add_series scores log_pop
         else if popularity_pref p = ''hidden'' then
           (let hidden_threshold = 500;
                rarity = map (\<lambda>x. max 0 ((hidden_threshold - x) / hidden_threshold)) pop;
                scores = add_series scores (map (\<lambda>x. x * 3) rarity)
            in add_series scores (map (\<lambda>l. - ((l - Min (set log_pop)) * (2 / 10))) log_pop))
         else add_series scores
                (map (\<lambda>l. (l - sum_list log_pop / real (length log_pop)) * (3 / 10)) log_pop))"

text \<open>The selected genre columns of a profile (the keys with a non-zero weight), and
  the sum of the weights of those whose flag a row has.\<close>

definition selected_of :: "(genre_col \<times> real) list \<Rightarrow> genre_col list" where
  "selected_of gw = map fst (filter (\<lambda>(c, w). w \<noteq> 0) gw)"

definition boost :: "(genre_col \<times> real) list \<Rightarrow> movie_row \<Rightarrow> real" where
  "boost gw r = sum_list (map (\<lambda>(c, w). (if flag c r then 1 else 0) * w)
                            (filter (\<lambda>(c, w). w \<noteq> 0) gw))"

text \<open>
  \<^verbatim>\<open>load_candidates\<close>, over the rows of the view it reads (\<^verbatim>\<open>movie_features\<close> in
  \<^verbatim>\<open>recommender_prefs.py\<close>, \<^verbatim>\<open>movie_features_with_links\<close> in \<^verbatim>\<open>app.py\<close>). The mean of
  the average ratings skips missing values and is itself missing when none is present.
\<close>

definition load_candidates :: "movie_row list \<Rightarrow> movie_row list" where
  "load_candidates view =
     (let df = filter (\<lambda>r. 10 \<le> num_ratings r) view;
          mean = mean_of (dropna (map avg_rating df))
      in map (\<lambda>r. r\<lparr> avg_rating := (case avg_rating r of None \<Rightarrow> mean | Some a \<Rightarrow> Some a),
                       year := Some (case year r of None \<Rightarrow> 1900 | Some y \<Rightarrow> y) \<rparr>) df)"

text \<open>\<^verbatim>\<open>sort_values(key, ascending=False)\<close> on a column with missing values: they go
  last.\<close>

definition sort_values_desc :: "('a \<Rightarrow> real option) \<Rightarrow> 'a list \<Rightarrow> 'a list" where
  "sort_values_desc key xs =
     map snd (sort_key (\<lambda>(k, x). - k)
        (concat (map (\<lambda>x. case key x of None \<Rightarrow> [] | Some k \<Rightarrow> [(k, x)]) xs)))
     @ filter (\<lambda>x. key x = None) xs"


text \<open>\<^verbatim>\<open>recommend_from_preferences\<close>: rows of the pool with their \<^verbatim>\<open>pref_score\<close>.\<close>

definition recommend_from_preferences ::
  "store \<Rightarrow> prefs \<Rightarrow> nat \<Rightarrow> (movie_row \<times> real option) list" where
  "recommend_from_preferences st p top_n =
     (let df = load_candidates (movie_features st);
          df = zip df (score_by_preferences df p)
      in take top_n (sort_values_desc snd df))"

subsection \<open>Command-line hybrid recommender (\<^verbatim>\<open>recommend_hybrid\<close>)\<close>

text \<open>A row of an outer merge: present on the left only, on the right only, or on both
  sides.\<close>

datatype ('a, 'b) joined = LeftOnly 'a | RightOnly 'b | Both 'a 'b

text \<open>\<^verbatim>\<open>pd.merge(hist_df, pref_df, on="movie_id", how="outer")\<close>: the keys of both frames,
  sorted, each with the combinations of its rows on the two sides.\<close>

definition merge_outer ::
  "history_row list \<Rightarrow> (movie_row \<times> real option) list
   \<Rightarrow> (history_row, movie_row \<times> real option) joined list" where
  "merge_outer hist_df pref_df =
     (let keys = sort (remdups (map h_movie_id hist_df @ map (\<lambda>q. movie_id (fst q)) pref_df))
      in concat (map (\<lambda>k.
           let ls = filter (\<lambda>h. h_movie_id h = k) hist_df;
               rs = filter (\<lambda>q. movie_id (fst q) = k) pref_df
           in if rs = [] then map LeftOnly ls
              else if ls = [] then map RightOnly rs
              else concat (map (\<lambda>l. map (Both l) rs) ls)) keys))"

record hybrid_row =
  hy_movie_id :: int
  hy_title :: string
  hy_genres :: string
  hy_avg_rating :: "real option"
  hy_num_ratings :: nat
  hy_history_score :: real
  hy_pref_score :: real
  hy_final_score :: "real option"

text \<open>The columns of one merged row: the basic fields from whichever side has them
  (\<^verbatim>\<open>combine_first\<close>), the two scores with a missing one filled by 0.\<close>

fun hybrid_columns :: "(history_row, movie_row \<times> real option) joined \<Rightarrow> hybrid_row" where
  "hybrid_columns (LeftOnly h) =
     \<lparr> hy_movie_id = h_movie_id h, hy_title = h_title h, hy_genres = h_genres h,
       hy_avg_rating = h_avg_rating h, hy_num_ratings = h_num_ratings h,
       hy_history_score = score h, hy_pref_score = 0, hy_final_score = None \<rparr>"
| "hybrid_columns (RightOnly (r, ps)) =
     \<lparr> hy_movie_id = movie_id r, hy_title = title r, hy_genres = genres r,
       hy_avg_rating = avg_rating r, hy_num_ratings = num_ratings r,
       hy_history_score = 0, hy_pref_score = (case ps of None \<Rightarrow> 0 | Some v \<Rightarrow> v),
       hy_final_score = None \<rparr>"
| "hybrid_columns (Both h (r, ps)) =
     \<lparr> hy_movie_id = h_movie_id h, hy_title = h_title h, hy_genres = h_genres h,
       hy_avg_rating = (case h_avg_rating h of None \<Rightarrow> avg_rating r | Some a \<Rightarrow> Some a),
       hy_num_ratings = h_num_ratings h,
       hy_history_score = score h, hy_pref_score = (case ps of None \<Rightarrow> 0 | Some v \<Rightarrow> v),
       hy_final_score = None \<rparr>"

text \<open>The blend of two normalised columns; missing when either value is.\<close>

definition blend_opt :: "real \<Rightarrow> real option \<Rightarrow> real option \<Rightarrow> real option" where
  "blend_opt alpha pn hn =
     (case (pn, hn) of (Some x, Some y) \<Rightarrow> Some (blend alpha x y) | _ \<Rightarrow> None)"

text \<open>
  The same blend in \<^verbatim>\<open>compute_hybrid_recs\<close>, whose alpha is whatever \<^verbatim>\<open>float\<close> returned.
  Both norms are columns \<^verbatim>\<open>min_max_normalize\<close> produced: missing or between 0 and 1
  (\<open>min_max_normalize_range\<close> below). For such norms and an alpha that is nan or an infinity
  the sum is nan: \<open>inf * 0\<close> is nan, \<open>inf * x\<close> for \<open>x > 0\<close> is an infinity, and the terms
  \<^verbatim>\<open>alpha * pref_norm\<close> and \<^verbatim>\<open>(1.0 - alpha) * history_norm\<close> are then infinities of
  opposite sign. For a finite alpha no step leaves the finite range.
\<close>

definition blend_float :: "pyfloat \<Rightarrow> real option \<Rightarrow> real option \<Rightarrow> real option" where
  "blend_float alpha pn hn = (case alpha of Finite a \<Rightarrow> blend_opt a pn hn | _ \<Rightarrow> None)"

text \<open>\<^verbatim>\<open>final_score > 0\<close>; a comparison with a missing value is false.\<close>

definition positive :: "real option \<Rightarrow> bool" where
  "positive f = (case f of None \<Rightarrow> False | Some v \<Rightarrow> 0 < v)"

text \<open>The preference profile is the value \<^verbatim>\<open>ask_preferences()\<close> returned, read from the
  terminal.\<close>

definition recommend_hybrid ::
  "store \<Rightarrow> int \<Rightarrow> prefs \<Rightarrow> real \<Rightarrow> nat \<Rightarrow> error + hybrid_row list" where
  "recommend_hybrid st uid p alpha top_n =
     (case recommend_from_history st uid (top_n * 5) 30 of
        Inl e \<Rightarrow> Inl e
      | Inr hist_df \<Rightarrow>
          let pref_df = recommend_from_preferences st p (top_n * 5);
              merged = map hybrid_columns (merge_outer hist_df pref_df);
              history_norm = min_max_normalize (map (\<lambda>r. Some (hy_history_score r)) merged);
              pref_norm = min_max_normalize (map (\<lambda>r. Some (hy_pref_score r)) merged);
              merged = map (\<lambda>(r, pn, hn). r\<lparr> hy_final_score := blend_opt alpha pn hn \<rparr>)
                         (zip merged (zip pref_norm history_norm));
              merged = filter (\<lambda>r. positive (hy_final_score r)) merged
          in Inr (take top_n (sort_values_desc hy_final_score merged)))"

subsection \<open>Web application (\<^verbatim>\<open>app.py\<close>)\<close>

text \<open>
  The outside world of the application: the API key of the environment, the local
  user, and the metadata provider. A request to the provider for one movie either
  fails (an exception, a timeout, a status other than 200) or returns the movie's JSON
  document, of which the two fields the application reads are kept. The provider
  answers the same for the same id throughout one run.
\<close>

datatype tmdb_response =
    Unavailable
  | Movie (original_language: "string option") (poster_path: "string option")

record env =
  TMDB_API_KEY :: "string option"
  MY_USER_ID :: int
  tmdb :: "int \<Rightarrow> tmdb_response"

text \<open>\<^verbatim>\<open>not TMDB_API_KEY\<close>: the variable is unset or empty.\<close>

definition no_api_key :: "env \<Rightarrow> bool" where
  "no_api_key e = (TMDB_API_KEY e = None \<or> TMDB_API_KEY e = Some [])"

definition get_poster_url :: "env \<Rightarrow> int option \<Rightarrow> string option" where
  "get_poster_url e tid =
     (if no_api_key e \<or> tid = None then None
      else case tid of None \<Rightarrow> None | Some i \<Rightarrow>
        (case tmdb e i of
           Unavailable \<Rightarrow> None
         | Movie _ pp \<Rightarrow>
             (case pp of None \<Rightarrow> None
              | Some path \<Rightarrow> if path = [] then None
                             else Some (''https://image.tmdb.org/t/p/w342'' @ path))))"

text \<open>\<^verbatim>\<open>LANG_CACHE\<close>, the process-wide dictionary of language lookups, is threaded
  through as state.\<close>

type_synonym lang_cache = "int \<rightharpoonup> string option"

definition get_original_language ::
  "env \<Rightarrow> lang_cache \<Rightarrow> int option \<Rightarrow> string option \<times> lang_cache" where
  "get_original_language e cache tid =
     (if no_api_key e \<or> tid = None then (None, cache)
      else case tid of None \<Rightarrow> (None, cache) | Some i \<Rightarrow>
        (case cache i of
           Some lang \<Rightarrow> (lang, cache)
         | None \<Rightarrow>
             (case tmdb e i of
                Unavailable \<Rightarrow> (None, cache)
              | Movie lang _ \<Rightarrow> (lang, cache(i \<mapsto> lang)))))"

record merged_row =
  movie :: movie_row
  pref_score :: "real option"
  history_score :: real
  history_norm :: "real option"
  pref_norm :: "real option"
  final_score :: "real option"

text \<open>The loop \<^verbatim>\<open>for _, row in merged.iterrows(): langs.append(...)\<close>.\<close>

fun lookup_languages ::
  "env \<Rightarrow> lang_cache \<Rightarrow> merged_row list \<Rightarrow> string option list \<times> lang_cache" where
  "lookup_languages e cache [] = ([], cache)"
| "lookup_languages e cache (row # rows) =
     (let (lang, cache) = get_original_language e cache (tmdb_id (movie row));
          (langs, cache) = lookup_languages e cache rows
      in (lang # langs, cache))"

text \<open>The language the lookup returns for one row of the frame, from the cache the
  request starts with.\<close>

definition lang_of :: "env \<Rightarrow> lang_cache \<Rightarrow> merged_row \<Rightarrow> string option" where
  "lang_of e cache row = fst (get_original_language e cache (tmdb_id (movie row)))"

definition get_user_rated_movie_ids :: "store \<Rightarrow> int \<Rightarrow> int set" where
  "get_user_rated_movie_ids st uid =
     set (map r_movie_id (filter (\<lambda>r. r_user_id r = uid) (ratings st)))"

definition genre_map :: "string \<Rightarrow> genre_col option" where
  "genre_map g =
     (if g = ''Action'' then Some ColAction
      else if g = ''Comedy'' then Some ColComedy
      else if g = ''Drama'' then Some ColDrama
      else if g = ''Horror'' then Some ColHorror
      else if g = ''Romance'' then Some ColRomance
      else if g = ''Sci fi'' then Some ColScifi
      else if g = ''Animation'' then Some ColAnimation
      else None)"

text \<open>\<^verbatim>\<open>for g in genres_chosen: genre_weights[genre_map[g]] = 2.0\<close>; an unknown genre
  raises \<^verbatim>\<open>KeyError\<close>.\<close>

fun chosen_weights ::
  "string list \<Rightarrow> (genre_col \<times> real) list \<Rightarrow> error + (genre_col \<times> real) list" where
  "chosen_weights [] gw = Inr gw"
| "chosen_weights (g # gs) gw =
     (case genre_map g of
        None \<Rightarrow> Inl (GenreKeyError g)
      | Some col \<Rightarrow> chosen_weights gs (map (\<lambda>(c, w). if c = col then (c, 2) else (c, w)) gw))"

definition initial_weights :: "(genre_col \<times> real) list" where
  "initial_weights =
     map (\<lambda>c. (c, 0))
       [ColAction, ColComedy, ColDrama, ColHorror, ColRomance, ColScifi, ColAnimation]"

text \<open>\<^verbatim>\<open>hist_df.drop_duplicates("movie_id")\<close>: the first row of every movie is kept.\<close>

fun drop_duplicates :: "history_row list \<Rightarrow> history_row list" where
  "drop_duplicates [] = []"
| "drop_duplicates (h # hs) =
     h # drop_duplicates (filter (\<lambda>x. h_movie_id x \<noteq> h_movie_id h) hs)"

text \<open>\<^verbatim>\<open>candidates.merge(hist_df, on="movie_id", how="left")\<close> followed by
  \<^verbatim>\<open>fillna(0.0)\<close>: every candidate stays, in order, with the score of each matching
  history row or 0 when there is none.\<close>

definition merge_left ::
  "(movie_row \<times> real option) list \<Rightarrow> history_row list \<Rightarrow> merged_row list" where
  "merge_left candidates hist_df =
     concat (map (\<lambda>(c, ps).
        let row = (\<lambda>hs. \<lparr> movie = c, pref_score = ps, history_score = hs,
                           history_norm = None, pref_norm = None, final_score = None \<rparr>);
            matches = filter (\<lambda>h. h_movie_id h = movie_id c) hist_df
        in if matches = [] then [row 0] else map (\<lambda>h. row (score h)) matches) candidates)"

text \<open>Steps 1 to 5 of \<^verbatim>\<open>compute_hybrid_recs\<close>: the frame \<^verbatim>\<open>merged\<close> after the rows with a
  non-positive final score are dropped.\<close>

definition scored_candidates ::
  "store \<Rightarrow> int \<Rightarrow> string list \<Rightarrow> int \<Rightarrow> string \<Rightarrow> pyfloat \<Rightarrow> error + merged_row list" where
  "scored_candidates st uid genres_chosen ymin pop_pref alpha =
     (let candidates = load_candidates (movie_features_with_links st);
          rated_ids = get_user_rated_movie_ids st uid;
          candidates = (if rated_ids \<noteq> {}
                        then filter (\<lambda>c. movie_id c \<notin> rated_ids) candidates
                        else candidates)
      in case recommend_from_history st uid 500 30 of
           Inl e \<Rightarrow> Inl e
         | Inr hist_df \<Rightarrow>
             let hist_df = drop_duplicates hist_df in
             (case chosen_weights genres_chosen initial_weights of
                Inl e \<Rightarrow> Inl e
              | Inr gw \<Rightarrow>
                  let p = \<lparr> genre_weights = gw, year_min = ymin, popularity_pref = pop_pref \<rparr>;
                      candidates =
                        (if genres_chosen \<noteq> []
                         then let cols_used = dropna (map genre_map genres_chosen)
                              in filter (genre_match cols_used) candidates
                         else candidates);
                      candidates = zip candidates (score_by_preferences candidates p);
                      merged = merge_left candidates hist_df;
                      hn = min_max_normalize (map (\<lambda>r. Some (history_score r)) merged);
                      pn = min_max_normalize (map pref_score merged);
                      merged = map (\<lambda>(r, x, y). r\<lparr> history_norm := y, pref_norm := x,
                                                     final_score := blend_float alpha x y \<rparr>)
                                 (zip merged (zip pn hn))
                  in Inr (filter (\<lambda>r. positive (final_score r)) merged)))"

text \<open>Step 6, the language gate.\<close>

definition foreign_filter ::
  "env \<Rightarrow> lang_cache \<Rightarrow> string \<Rightarrow> merged_row list \<Rightarrow> merged_row list \<times> lang_cache" where
  "foreign_filter e cache effective_foreign_choice merged =
     (if effective_foreign_choice = ''exclude'' \<or> effective_foreign_choice = ''only''
      then let (langs, cache) = lookup_languages e cache merged in
        if 0 < length (filter (\<lambda>l. l \<noteq> None) langs)
        then if effective_foreign_choice = ''exclude''
             then (map fst (filter (\<lambda>(r, l). l = None \<or> l = Some ''en'') (zip merged langs)),
                   cache)
             else (map fst (filter (\<lambda>(r, l). l \<noteq> None \<and> l \<noteq> Some ''en'') (zip merged langs)),
                   cache)
        else (merged, cache)
      else (merged, cache))"

text \<open>Step 7, hidden gems against plain ranking.\<close>

definition final_ordering :: "string \<Rightarrow> nat \<Rightarrow> merged_row list \<Rightarrow> merged_row list" where
  "final_ordering pop_pref top_n merged =
     (if pop_pref = ''hidden''
      then let hidden_threshold = 5000;
               merged = sort_values_desc final_score merged;
               hidden = filter (\<lambda>r. num_ratings (movie r) < hidden_threshold) merged
           in if top_n \<le> length hidden then take top_n hidden
              else let rest = filter (\<lambda>r. hidden_threshold \<le> num_ratings (movie r)) merged
                   in hidden @ take (top_n - length hidden) rest
      else take top_n (sort_values_desc final_score merged))"

record result =
  res_movie_id :: int
  res_title :: string
  res_genres :: string
  res_year :: "int option"
  res_avg_rating :: "real option"
  res_num_ratings :: nat
  res_history_score :: real
  res_pref_score :: "real option"
  res_final_score :: "real option"
  poster_url :: "string option"

text \<open>Step 8, one dictionary of the returned list.\<close>

definition to_result :: "env \<Rightarrow> merged_row \<Rightarrow> result" where
  "to_result e row =
     \<lparr> res_movie_id = movie_id (movie row), res_title = title (movie row),
       res_genres = genres (movie row), res_year = year (movie row),
       res_avg_rating = avg_rating (movie row), res_num_ratings = num_ratings (movie row),
       res_history_score = history_score row, res_pref_score = pref_score row,
       res_final_score = final_score row,
       poster_url = get_poster_url e (tmdb_id (movie row)) \<rparr>"

text \<open>The frame after every filter (steps 1 to 6), before the final ordering.\<close>

definition eligible ::
  "env \<Rightarrow> lang_cache \<Rightarrow> store \<Rightarrow> int \<Rightarrow> string list \<Rightarrow> int \<Rightarrow> string \<Rightarrow> pyfloat \<Rightarrow> string
   \<Rightarrow> error + (merged_row list \<times> lang_cache)" where
  "eligible e cache st uid genres_chosen ymin pop_pref alpha foreign_choice =
     (let effective_foreign_choice = (if no_api_key e then ''any'' else foreign_choice)
      in case scored_candidates st uid genres_chosen ymin pop_pref alpha of
           Inl err \<Rightarrow> Inl err
         | Inr merged \<Rightarrow> Inr (foreign_filter e cache effective_foreign_choice merged))"

definition compute_hybrid_recs ::
  "env \<Rightarrow> lang_cache \<Rightarrow> store \<Rightarrow> int \<Rightarrow> string list \<Rightarrow> int \<Rightarrow> string \<Rightarrow> pyfloat \<Rightarrow> string
   \<Rightarrow> nat \<Rightarrow> error + (result list \<times> lang_cache)" where
  "compute_hybrid_recs e cache st uid genres_chosen ymin pop_pref alpha foreign_choice top_n =
     (case eligible e cache st uid genres_chosen ymin pop_pref alpha foreign_choice of
        Inl err \<Rightarrow> Inl err
      | Inr (merged, cache) \<Rightarrow>
          Inr (map (to_result e) (final_ordering pop_pref top_n merged), cache))"

subsection \<open>The request boundary (\<^verbatim>\<open>index\<close>)\<close>

text \<open>
  The form of a request is a multi-dictionary: \<^verbatim>\<open>getlist\<close> returns every value of a
  key, \<^verbatim>\<open>get\<close> the first one or the default.
\<close>

type_synonym form = "(string \<times> string) list"

definition getlist :: "form \<Rightarrow> string \<Rightarrow> string list" where
  "getlist f k = map snd (filter (\<lambda>kv. fst kv = k) f)"

definition form_get :: "form \<Rightarrow> string \<Rightarrow> string \<Rightarrow> string" where
  "form_get f k d = (case getlist f k of [] \<Rightarrow> d | v # _ \<Rightarrow> v)"

datatype http_method = GET | POST

text \<open>The arguments of the call \<^verbatim>\<open>compute_hybrid_recs(...)\<close> that \<^verbatim>\<open>index\<close> makes.\<close>

record core_call =
  c_user_id :: int
  c_genres_chosen :: "string list"
  c_year_min :: int
  c_popularity_pref :: string
  c_alpha :: pyfloat
  c_foreign_choice :: string
  c_top_n :: nat

text \<open>
  What the \<^verbatim>\<open>except Exception\<close> of \<^verbatim>\<open>index\<close> catches: the \<^verbatim>\<open>ValueError\<close> of
  \<^verbatim>\<open>float(...)\<close> on the alpha field, or an exception of the core.
\<close>

datatype failure = FloatValueError string | CoreError error

text \<open>
  The statements of the \<^verbatim>\<open>try\<close> block before the call of the core. Python's built-in
  \<^verbatim>\<open>float\<close> on a string is the parameter \<open>py_float\<close>: \<^term>\<open>None\<close> where it raises
  \<^verbatim>\<open>ValueError\<close>, otherwise the float it returns, which may be nan or an infinity.
\<close>

definition request_args ::
  "(string \<Rightarrow> pyfloat option) \<Rightarrow> env \<Rightarrow> form \<Rightarrow> failure + core_call" where
  "request_args py_float e f =
     (let user_id = MY_USER_ID e;
          genres_chosen = getlist f ''genres'';
          year_choice = form_get f ''year_choice'' ''any'';
          ymin = (if year_choice = ''after2000'' then 2000
                  else if year_choice = ''after1980'' then 1980 else 1900);
          pop_choice = form_get f ''pop_choice'' ''mixed''
      in case py_float (form_get f ''alpha'' ''0.4'') of
           None \<Rightarrow> Inl (FloatValueError (form_get f ''alpha'' ''0.4''))
         | Some alpha \<Rightarrow>
             let foreign_choice = form_get f ''foreign_choice'' ''any''
             in Inr \<lparr> c_user_id = user_id, c_genres_chosen = genres_chosen, c_year_min = ymin,
                      c_popularity_pref = pop_choice, c_alpha = alpha,
                      c_foreign_choice = foreign_choice, c_top_n = 10 \<rparr>)"

text \<open>The values \<^verbatim>\<open>index\<close> hands to the template: the error message and the results.\<close>

record page =
  page_error :: "failure option"
  page_results :: "result list option"

definition index ::
  "(string \<Rightarrow> pyfloat option) \<Rightarrow> env \<Rightarrow> lang_cache \<Rightarrow> store \<Rightarrow> http_method \<Rightarrow> form
   \<Rightarrow> page \<times> lang_cache" where
  "index py_float e cache st method f =
     (if method = POST then
        (case request_args py_float e f of
           Inl bad \<Rightarrow> (\<lparr> page_error = Some bad, page_results = None \<rparr>, cache)
         | Inr a \<Rightarrow>
             (case compute_hybrid_recs e cache st (c_user_id a) (c_genres_chosen a)
                     (c_year_min a) (c_popularity_pref a) (c_alpha a) (c_foreign_choice a)
                     (c_top_n a) of
                Inl err \<Rightarrow> (\<lparr> page_error = Some (CoreError err), page_results = None \<rparr>, cache)
              | Inr (results, cache') \<Rightarrow>
                  (\<lparr> page_error = None, page_results = Some results \<rparr>, cache')))
      else (\<lparr> page_error = None, page_results = None \<rparr>, cache))"

text \<open>
  Python's \<^verbatim>\<open>float\<close> on a string of ASCII characters, after the grammar of the language
  reference: surrounding whitespace is stripped; an optional sign is followed by
  \<^verbatim>\<open>inf\<close>, \<^verbatim>\<open>infinity\<close> or \<^verbatim>\<open>nan\<close> in any letter case, or by a decimal number with an
  optional fraction and an optional exponent, whose digits may be grouped by single
  underscores. The value of a number is the exact decimal value, or an infinity when it
  is beyond the finite range. Digits and spaces outside ASCII are not modelled. This
  instance of \<open>py_float\<close> serves the concrete requests below.
\<close>

definition is_digit :: "char \<Rightarrow> bool" where
  "is_digit c = (let n = (of_char c :: nat) in 48 \<le> n \<and> n \<le> 57)"

definition is_space :: "char \<Rightarrow> bool" where
  "is_space c = (let n = (of_char c :: nat) in (9 \<le> n \<and> n \<le> 13) \<or> (28 \<le> n \<and> n \<le> 32))"

definition strip :: "string \<Rightarrow> string" where
  "strip s = rev (dropWhile is_space (rev (dropWhile is_space s)))"

definition lower_code :: "char \<Rightarrow> nat" where
  "lower_code c = (let n = (of_char c :: nat) in if 65 \<le> n \<and> n \<le> 90 then n + 32 else n)"

definition same_word :: "string \<Rightarrow> string \<Rightarrow> bool" where
  "same_word s w = (map lower_code s = map of_char w)"

fun digits_ok :: "string \<Rightarrow> bool" where
  "digits_ok [] = True"
| "digits_ok (c # cs) =
     (if is_digit c then digits_ok cs
      else if c = CHR ''_'' then (case cs of [] \<Rightarrow> False | d # _ \<Rightarrow> is_digit d \<and> digits_ok cs)
      else False)"

definition digitpart :: "string \<Rightarrow> nat list option" where
  "digitpart s =
     (case s of
        [] \<Rightarrow> None
      | c # _ \<Rightarrow> if is_digit c \<and> digits_ok s
                 then Some (map (\<lambda>d. of_char d - 48) (filter is_digit s)) else None)"

definition decimal_value :: "nat list \<Rightarrow> nat" where
  "decimal_value ds = foldl (\<lambda>a d. 10 * a + d) 0 ds"

definition split_at :: "(char \<Rightarrow> bool) \<Rightarrow> string \<Rightarrow> string \<times> string option" where
  "split_at P s =
     (takeWhile (\<lambda>c. \<not> P c) s,
      case dropWhile (\<lambda>c. \<not> P c) s of [] \<Rightarrow> None | _ # r \<Rightarrow> Some r)"

definition number :: "string \<Rightarrow> real option" where
  "number s =
     (case split_at (\<lambda>c. c = CHR ''.'') s of
        (ip, None) \<Rightarrow> map_option (\<lambda>ds. real (decimal_value ds)) (digitpart ip)
      | (ip, Some fp) \<Rightarrow>
          if fp = [] then map_option (\<lambda>ds. real (decimal_value ds)) (digitpart ip)
          else (case digitpart fp of
                  None \<Rightarrow> None
                | Some fs \<Rightarrow>
                    let frac = real (decimal_value fs) / 10 ^ length fs
                    in if ip = [] then Some frac
                       else map_option (\<lambda>ds. real (decimal_value ds) + frac) (digitpart ip)))"

definition exponent :: "string \<Rightarrow> int option" where
  "exponent s =
     (case s of
        [] \<Rightarrow> None
      | c # r \<Rightarrow>
          if c = CHR ''-'' then map_option (\<lambda>ds. - int (decimal_value ds)) (digitpart r)
          else if c = CHR ''+'' then map_option (\<lambda>ds. int (decimal_value ds)) (digitpart r)
          else map_option (\<lambda>ds. int (decimal_value ds)) (digitpart s))"

definition floatnumber :: "string \<Rightarrow> real option" where
  "floatnumber s =
     (case split_at (\<lambda>c. c = CHR ''e'' \<or> c = CHR ''E'') s of
        (m, None) \<Rightarrow> number m
      | (m, Some ex) \<Rightarrow>
          (case (number m, exponent ex) of
             (Some v, Some k) \<Rightarrow> Some (if 0 \<le> k then v * 10 ^ nat k else v / 10 ^ nat (- k))
           | _ \<Rightarrow> None))"

definition py_float_ascii :: "string \<Rightarrow> pyfloat option" where
  "py_float_ascii s =
     (let t = strip s;
          (neg, body) = (case t of
                           [] \<Rightarrow> (False, t)
                         | c # r \<Rightarrow> if c = CHR ''-'' then (True, r)
                                    else if c = CHR ''+'' then (False, r) else (False, t))
      in if same_word body ''inf'' \<or> same_word body ''infinity''
         then Some (if neg then NegInf else PosInf)
         else if same_word body ''nan'' then Some NaN
         else map_option (\<lambda>v. round_overflow (if neg then - v else v)) (floatnumber body))"

subsection \<open>Concrete stores and environments\<close>

text \<open>Small databases on which the functions above are run. Every movie is a drama of
  1999; the views agree with the ratings table.\<close>

definition mk_rating :: "int \<Rightarrow> int \<Rightarrow> real \<Rightarrow> rating_row" where
  "mk_rating u m v = \<lparr> r_user_id = u, r_movie_id = m, r_rating = v \<rparr>"

definition mk_movie :: "int \<Rightarrow> string \<Rightarrow> real \<Rightarrow> nat \<Rightarrow> int option \<Rightarrow> movie_row" where
  "mk_movie i t a n tid =
     \<lparr> movie_id = i, title = t, genres = ''Drama'', year = Some 1999, avg_rating = Some a,
       num_ratings = n, is_action = False, is_comedy = False, is_drama = True,
       is_horror = False, is_romance = False, is_scifi = False, is_animation = False,
       tmdb_id = tid \<rparr>"

text \<open>User 1 and users 2 to 10 gave movie 10 five stars; users 2 to 6 also gave movie 20
  five stars.\<close>

definition ratings_core :: "rating_row list" where
  "ratings_core =
     [mk_rating 1 10 5,
      mk_rating 2 10 5, mk_rating 3 10 5, mk_rating 4 10 5, mk_rating 5 10 5,
      mk_rating 6 10 5, mk_rating 7 10 5, mk_rating 8 10 5, mk_rating 9 10 5,
      mk_rating 10 10 5,
      mk_rating 2 20 5, mk_rating 3 20 5, mk_rating 4 20 5, mk_rating 5 20 5,
      mk_rating 6 20 5]"

text \<open>Twenty-five further users rated only movie 20 (four stars), thirty only movie 30
  (five stars).\<close>

definition others20 :: "rating_row list" where
  "others20 = map (\<lambda>u. mk_rating u 20 4) [101..125]"

definition others30 :: "rating_row list" where
  "others30 = map (\<lambda>u. mk_rating u 30 5) [201..230]"

definition movie_a :: movie_row where
  "movie_a = mk_movie 10 ''A'' 5 10 (Some 110)"

definition movie_b :: movie_row where
  "movie_b = mk_movie 20 ''B'' (25 / 6) 30 (Some 120)"

definition movie_c :: movie_row where
  "movie_c = mk_movie 30 ''C'' 5 30 (Some 130)"

text \<open>Movie 20 has five ratings in all: enough for the neighbourhood, too few for the
  catalogue-wide minimum of 30.\<close>

definition st_thin :: store where
  "st_thin =
     \<lparr> ratings = ratings_core,
       movie_features = [movie_a, mk_movie 20 ''B'' 5 5 (Some 120)],
       movie_features_with_links = [movie_a, mk_movie 20 ''B'' 5 5 (Some 120)] \<rparr>"

definition st_seen :: store where
  "st_seen =
     \<lparr> ratings = ratings_core @ others20,
       movie_features = [movie_a, movie_b],
       movie_features_with_links = [movie_a, movie_b] \<rparr>"

definition st_demo :: store where
  "st_demo =
     \<lparr> ratings = ratings_core @ others20 @ others30,
       movie_features = [movie_a, movie_b, movie_c],
       movie_features_with_links = [movie_a, movie_b, movie_c] \<rparr>"

text \<open>User 1 rated movies 10 and 11; each has fewer than five ratings among user 1 and
  the neighbours, while movie 20, which user 1 did not rate, has five.\<close>

definition st_row_missing :: store where
  "st_row_missing =
     \<lparr> ratings =
         [mk_rating 1 10 5, mk_rating 1 11 4,
          mk_rating 2 10 4, mk_rating 3 10 4, mk_rating 4 10 4,
          mk_rating 5 11 3, mk_rating 6 11 3,
          mk_rating 2 20 5, mk_rating 3 20 5, mk_rating 4 20 5,
          mk_rating 5 20 5, mk_rating 6 20 5],
       movie_features = [],
       movie_features_with_links = [] \<rparr>"

text \<open>No API key; a key with the provider down; a key with the provider knowing only
  that movie 20 (TMDB id 120) is French.\<close>

definition env_nokey :: env where
  "env_nokey = \<lparr> TMDB_API_KEY = None, MY_USER_ID = 1, tmdb = (\<lambda>i. Unavailable) \<rparr>"

definition env_down :: env where
  "env_down = \<lparr> TMDB_API_KEY = Some ''key'', MY_USER_ID = 1, tmdb = (\<lambda>i. Unavailable) \<rparr>"

definition env_fr :: env where
  "env_fr = \<lparr> TMDB_API_KEY = Some ''key'', MY_USER_ID = 1,
              tmdb = (\<lambda>i. if i = 120 then Movie (Some ''fr'') None else Unavailable) \<rparr>"

definition prefs_hidden :: prefs where
  "prefs_hidden = \<lparr> genre_weights = initial_weights, year_min = 1900,
                     popularity_pref = ''hidden'' \<rparr>"

text \<open>The history row of movie 20 on the stores \<open>st_seen\<close> and \<open>st_demo\<close>; its score is
  \<open>2 * cos(item 20, item 10) = sqrt 2\<close>.\<close>

definition history_b :: history_row where
  "history_b = \<lparr> h_movie_id = 20, h_title = ''B'', h_genres = ''Drama'', score = sqrt 2,
       h_avg_rating = Some (25 / 6), h_num_ratings = 30 \<rparr>"

text \<open>The preference score of movie 20 in the pool of \<open>st_seen\<close>, hidden mode.\<close>

definition pref_b_seen :: real where
  "pref_b_seen = 25 / 6 + 141 / 50 - (ln 31 - ln 11) / 5"

text \<open>The two rows of the frame \<^verbatim>\<open>merged\<close> on \<open>st_demo\<close>, hidden mode, alpha 0.4.\<close>

definition row_b :: merged_row where
  "row_b = \<lparr> movie = movie_b, pref_score = Some (524 / 75), history_score = sqrt 2,
             history_norm = Some 1, pref_norm = Some 0, final_score = Some (3 / 5) \<rparr>"

definition row_c :: merged_row where
  "row_c = \<lparr> movie = movie_c, pref_score = Some (391 / 50), history_score = 0,
             history_norm = Some 0, pref_norm = Some 1, final_score = Some (2 / 5) \<rparr>"

text \<open>A profile with two selected genres, a minimum year of 2000 and hidden mode.\<close>

definition prefs_drama :: prefs where
  "prefs_drama = \<lparr> genre_weights = [(ColAction, 0), (ColDrama, 2), (ColHorror, 2)],
                    year_min = 2000, popularity_pref = ''hidden'' \<rparr>"

section \<open>Properties\<close>

subsection \<open>Normalisation\<close>

lemma dropna_map_Some: "dropna (map Some xs) = xs"
  by (induction xs) simp_all

lemma series_min_Some: "xs \<noteq> [] \<Longrightarrow> series_min (map Some xs) = Some (Min (set xs))"
  by (simp add: series_min_def dropna_map_Some)

lemma series_max_Some: "xs \<noteq> [] \<Longrightarrow> series_max (map Some xs) = Some (Max (set xs))"
  by (simp add: series_max_def dropna_map_Some)

lemma Min_eq_Max_iff:
  fixes xs :: "real list"
  assumes "xs \<noteq> []"
  shows "Max (set xs) = Min (set xs) \<longleftrightarrow> (\<forall>x\<in>set xs. x = hd xs)"
proof
  assume eq: "Max (set xs) = Min (set xs)"
  show "\<forall>x\<in>set xs. x = hd xs"
  proof
    fix x assume x: "x \<in> set xs"
    have hx: "hd xs \<in> set xs" using assms by simp
    have "Min (set xs) \<le> x" "x \<le> Max (set xs)"
         "Min (set xs) \<le> hd xs" "hd xs \<le> Max (set xs)"
      using x hx by simp_all
    with eq show "x = hd xs" by linarith
  qed
next
  assume all: "\<forall>x\<in>set xs. x = hd xs"
  have "set xs = {hd xs}" using assms all by (cases xs) auto
  then show "Max (set xs) = Min (set xs)" by simp
qed

lemma not_overflows_iff: "0 \<le> v \<Longrightarrow> \<not> overflows v \<longleftrightarrow> v < overflow_threshold"
  by (simp add: overflows_def not_le)

lemma min_max_normalize_const:
  assumes "xs \<noteq> []" "\<forall>x\<in>set xs. x = hd xs"
  shows "min_max_normalize (map Some xs) = map Some (map (\<lambda>_. 0) xs)"
  using assms Min_eq_Max_iff[OF assms(1)]
  by (simp add: min_max_normalize_def series_min_Some series_max_Some)

lemma min_max_normalize_spread:
  assumes "xs \<noteq> []" "\<not> (\<forall>x\<in>set xs. x = hd xs)"
    and "Max (set xs) - Min (set xs) < overflow_threshold"
  shows "min_max_normalize (map Some xs) =
         map Some (map (\<lambda>x. (x - Min (set xs)) / (Max (set xs) - Min (set xs))) xs)"
proof -
  have "Min (set xs) \<le> Max (set xs)" using assms(1) by (simp add: Min_le_iff)
  then have "\<not> overflows (Max (set xs) - Min (set xs))"
    using assms(3) by (simp add: not_overflows_iff)
  then show ?thesis
    using assms(1,2) Min_eq_Max_iff[OF assms(1)]
    by (simp add: min_max_normalize_def series_min_Some series_max_Some)
qed

lemma scaled_in_unit:
  fixes x :: real
  assumes "mn \<le> x" "x \<le> mx" "mn < mx"
  shows "0 \<le> (x - mn) / (mx - mn) \<and> (x - mn) / (mx - mn) \<le> 1"
  using assms by (simp add: field_simps)

lemma dropna_set: "v \<in> set (dropna s) \<longleftrightarrow> Some v \<in> set s"
  by (induction s) (auto split: option.splits)

text \<open>Whatever the series, an entry of the result is missing or lies between 0 and 1.\<close>

lemma min_max_normalize_range:
  assumes "y \<in> set (min_max_normalize s)"
  shows "y = None \<or> (\<exists>v. y = Some v \<and> 0 \<le> v \<and> v \<le> 1)"
proof (cases "dropna s = []")
  case True
  then show ?thesis
    using assms by (auto simp: min_max_normalize_def series_min_def series_max_def)
next
  case False
  let ?mn = "Min (set (dropna s))" and ?mx = "Max (set (dropna s))"
  have mm: "series_min s = Some ?mn" "series_max s = Some ?mx"
    using False by (simp_all add: series_min_def series_max_def)
  have le: "?mn \<le> ?mx" using False by (simp add: Min_le_iff)
  show ?thesis
  proof (cases "?mx = ?mn")
    case True
    then show ?thesis using assms by (auto simp: min_max_normalize_def mm)
  next
    case ne: False
    show ?thesis
    proof (cases "overflows (?mx - ?mn)")
      case True
      then show ?thesis
        using assms ne by (auto simp: min_max_normalize_def mm split: option.splits if_splits)
    next
      case False
      from assms ne False obtain x where x: "x \<in> set s"
        and y: "y = map_option (\<lambda>x. (x - ?mn) / (?mx - ?mn)) x"
        by (auto simp: min_max_normalize_def mm)
      show ?thesis
      proof (cases x)
        case None
        then show ?thesis using y by simp
      next
        case (Some v)
        then have "v \<in> set (dropna s)" using x by (simp add: dropna_set)
        then have "?mn \<le> v" "v \<le> ?mx" by simp_all
        moreover have "?mn < ?mx" using le ne by simp
        ultimately have "0 \<le> (v - ?mn) / (?mx - ?mn) \<and> (v - ?mn) / (?mx - ?mn) \<le> 1"
          by (rule scaled_in_unit)
        then show ?thesis using y Some by simp
      qed
    qed
  qed
qed

text \<open>
  Against claim C5 as stated: the series \<open>[-1e308, 1e308]\<close> is numeric, finite and not
  constant. Its spread \<open>2e308\<close> is beyond the finite range, so \<^verbatim>\<open>s_max - s_min\<close> is \<open>inf\<close>;
  the first entry becomes \<open>0 / inf = 0\<close> and the second \<open>inf / inf\<close>, which is nan.
\<close>

theorem min_max_normalize_overflow_counterexample:
  "min_max_normalize [Some (- (10 ^ 308)), Some (10 ^ 308)] = [Some 0, None]"
  by (simp add: min_max_normalize_def series_min_def series_max_def overflows_def
      overflow_threshold_def)

text \<open>
  Claim C5, as amended. For every non-empty series of finite numbers whose spread
  \<open>max - min\<close> stays in the finite range of a double (below \<open>2^1024 - 2^970\<close>),
  \<^verbatim>\<open>min_max_normalize\<close> returns a series of the same length whose values are numbers
  (none is nan) in the interval from 0 to 1; if all inputs are equal every output is
  exactly 0; otherwise the maximum is strictly above the minimum (the division is never
  by zero) and each output is \<open>(x - min) / (max - min)\<close>.
\<close>

theorem min_max_normalize_unit_interval:
  assumes "xs \<noteq> []" and "Max (set xs) - Min (set xs) < overflow_threshold"
  shows "\<exists>ys. min_max_normalize (map Some xs) = map Some ys
           \<and> length ys = length xs
           \<and> (\<forall>y\<in>set ys. 0 \<le> y \<and> y \<le> 1)
           \<and> ((\<forall>x\<in>set xs. x = hd xs) \<longrightarrow> (\<forall>y\<in>set ys. y = 0))
           \<and> (\<not> (\<forall>x\<in>set xs. x = hd xs) \<longrightarrow>
                Min (set xs) < Max (set xs)
                \<and> (\<forall>i<length xs. ys ! i =
                      (xs ! i - Min (set xs)) / (Max (set xs) - Min (set xs))))"
proof (cases "\<forall>x\<in>set xs. x = hd xs")
  case True
  let ?ys = "map (\<lambda>_. 0::real) xs"
  have "min_max_normalize (map Some xs) = map Some ?ys"
    using min_max_normalize_const[OF assms(1) True] .
  moreover have "\<forall>y\<in>set ?ys. 0 \<le> y \<and> y \<le> 1" by auto
  moreover have "\<forall>y\<in>set ?ys. y = 0" by auto
  ultimately show ?thesis using True by (intro exI[of _ ?ys]) simp
next
  case False
  let ?mn = "Min (set xs)" and ?mx = "Max (set xs)"
  let ?ys = "map (\<lambda>x. (x - ?mn) / (?mx - ?mn)) xs"
  have lt: "?mn < ?mx"
  proof -
    have "?mn \<le> ?mx" using assms(1) by (simp add: Min_le_iff)
    moreover have "?mx \<noteq> ?mn" using Min_eq_Max_iff[OF assms(1)] False by simp
    ultimately show ?thesis by linarith
  qed
  have eq: "min_max_normalize (map Some xs) = map Some ?ys"
    using min_max_normalize_spread[OF assms(1) False assms(2)] .
  have rng: "\<forall>y\<in>set ?ys. 0 \<le> y \<and> y \<le> 1"
  proof
    fix y assume "y \<in> set ?ys"
    then obtain x where x: "x \<in> set xs" and y: "y = (x - ?mn) / (?mx - ?mn)" by auto
    have "?mn \<le> x" "x \<le> ?mx" using x by simp_all
    then show "0 \<le> y \<and> y \<le> 1" unfolding y using lt by (rule scaled_in_unit)
  qed
  have pt: "\<forall>i<length xs. ?ys ! i = (xs ! i - ?mn) / (?mx - ?mn)" by simp
  have nc: "(\<forall>x\<in>set xs. x = hd xs) \<longrightarrow> (\<forall>y\<in>set ?ys. y = 0)"
    using False by blast
  have len: "length ?ys = length xs" by simp
  show ?thesis
    using eq len rng nc lt pt by blast
qed

lemma small_below_threshold: "v \<le> 1000 \<Longrightarrow> v < overflow_threshold"
  by (simp add: overflow_threshold_def)

theorem min_max_normalize_unit_interval_witness:
  "min_max_normalize (map Some [1, 3, 2]) = map Some [0, 1, 1 / 2]"
proof -
  have ne: "[1, 3, 2 :: real] \<noteq> []" by simp
  have sp: "Max (set [1, 3, 2 :: real]) - Min (set [1, 3, 2]) < overflow_threshold"
    by (rule small_below_threshold) simp
  from min_max_normalize_unit_interval[OF ne sp]
  obtain ys where ys: "min_max_normalize (map Some [1, 3, 2 :: real]) = map Some ys"
    by blast
  have "min_max_normalize (map Some [1, 3, 2 :: real]) = map Some [0, 1, 1 / 2]"
    by (simp add: min_max_normalize_def series_min_def series_max_def overflows_def
        overflow_threshold_def)
  with ys show ?thesis by simp
qed

subsection \<open>Fusion\<close>

text \<open>
  Claim C8. Take a first item with \<open>pref_norm \<ge> history_norm\<close>, a second item with
  \<open>history_norm \<ge> pref_norm\<close>, and weights \<open>alpha \<le> alpha'\<close> in the unit interval. If the
  final score ranks the first item at or above the second under \<open>alpha\<close>, it does so
  under \<open>alpha'\<close> too.
\<close>

theorem final_score_alpha_monotone:
  assumes "p1 \<ge> h1" "h2 \<ge> p2"
    and "0 \<le> alpha" "alpha \<le> alpha'" "alpha' \<le> 1"
    and "blend alpha p1 h1 \<ge> blend alpha p2 h2"
  shows "blend alpha' p1 h1 \<ge> blend alpha' p2 h2"
proof -
  have step: "(alpha' - alpha) * ((p1 - h1) + (h2 - p2)) \<ge> 0"
    using assms(1,2,4) by (intro mult_nonneg_nonneg) simp_all
  have "blend alpha' p1 h1 - blend alpha' p2 h2 =
        (blend alpha p1 h1 - blend alpha p2 h2)
        + (alpha' - alpha) * ((p1 - h1) + (h2 - p2))"
    by (simp add: blend_def algebra_simps)
  with step assms(6) show ?thesis by linarith
qed

theorem final_score_alpha_monotone_witness:
  "(1::real) \<ge> 0 \<and> (1::real) \<ge> 0 \<and> (0::real) \<le> 1 / 4 \<and> (1 / 4 :: real) \<le> 3 / 4
   \<and> (3 / 4 :: real) \<le> 1
   \<and> blend (1 / 4) 1 0 \<ge> blend (1 / 4) 0 (1 / 4)
   \<and> blend (3 / 4) 1 0 \<ge> blend (3 / 4) 0 (1 / 4)"
proof -
  have "blend (3 / 4) 1 0 \<ge> blend (3 / 4) 0 (1 / 4)"
    by (rule final_score_alpha_monotone
          [where ?p1.0 = 1 and ?h1.0 = 0 and ?p2.0 = 0 and ?h2.0 = "1 / 4"
             and alpha = "1 / 4" and alpha' = "3 / 4"])
       (simp_all add: blend_def)
  then show ?thesis by (simp add: blend_def)
qed

subsection \<open>History scorer\<close>



lemma rated_of_iff: "(m, v) \<in> set (rated_of M uid) \<longleftrightarrow> m \<in> set (columns M) \<and> cell M uid m = Some v"
  by (auto simp: rated_of_def split: option.splits)





subsection \<open>Errors of the history scorer\<close>

lemma user_row_rated:
  assumes "uid \<in> set (row_index (pivot_table rows))"
  shows "rated_of (pivot_table rows) uid \<noteq> []"
proof -
  from assms obtain r where r: "r \<in> set rows" "r_user_id r = uid"
    by (auto simp: pivot_table_def)
  let ?m = "r_movie_id r"
  have col: "?m \<in> set (columns (pivot_table rows))"
    using r(1) by (simp add: pivot_table_def)
  have "filter (\<lambda>x. r_user_id x = uid \<and> r_movie_id x = ?m) rows \<noteq> []"
    using r by (auto simp: filter_empty_conv)
  then obtain v where "cell (pivot_table rows) uid ?m = Some v"
    by (simp add: pivot_table_def mean_of_def)
  with col have "(?m, v) \<in> set (rated_of (pivot_table rows) uid)"
    by (simp add: rated_of_iff)
  then show ?thesis by auto
qed

lemma user_row_iff:
  "uid \<in> set (row_index (pivot_table rows)) \<longleftrightarrow> (\<exists>r\<in>set rows. r_user_id r = uid)"
  by (auto simp: pivot_table_def)

text \<open>
  Claim C2, as amended. For a target user who keeps at least one rating after the
  local minimum-support filter (or when no rating at all survives it),
  \<^verbatim>\<open>recommend_from_history\<close> raises an error exactly when one of four conditions holds,
  tested in this order: the user has no ratings (\<open>NoHistoryError\<close>); the
  support-restricted neighbourhood rating set is empty (\<open>InsufficientDataError\<close>);
  propagation leaves no unrated item with a strictly positive score (\<open>NoSignalError\<close>);
  no positively scored item is in the catalogue with at least \<open>min_ratings\<close> ratings
  (\<^verbatim>\<open>No candidates left after min_ratings filter\<close>). In every other case it returns the
  surviving items, the \<open>top_n\<close> best by descending score.
\<close>

theorem recommend_from_history_errors:
  assumes "ratings_local st uid 3000 5 = []
           \<or> (\<exists>r\<in>set (ratings_local st uid 3000 5). r_user_id r = uid)"
  shows "(let local = ratings_local st uid 3000 5;
              M = pivot_table local;
              scored = score_df M (fillna0 M) uid;
              kept = filter (\<lambda>h. min_ratings \<le> h_num_ratings h)
                       (join_stats scored (movie_features_with_links st))
          in recommend_from_history st uid top_n min_ratings =
               (if filter (\<lambda>r. r_user_id r = uid) (ratings st) = [] then Inl NoHistoryError
                else if local = [] then Inl InsufficientDataError
                else if scored = [] then Inl NoSignalError
                else if kept = [] then Inl NoCandidatesError
                else Inr (take top_n (sort_desc score kept)))
             \<and> (isl (recommend_from_history st uid top_n min_ratings) \<longleftrightarrow>
                  filter (\<lambda>r. r_user_id r = uid) (ratings st) = [] \<or> local = []
                  \<or> scored = [] \<or> kept = []))"
proof -
  let ?local = "ratings_local st uid 3000 5"
  let ?M = "pivot_table ?local"
  have row: "uid \<in> set (row_index ?M)" if "?local \<noteq> []"
    using assms that by (simp add: user_row_iff)
  have rated: "rated_of ?M uid \<noteq> []" if "?local \<noteq> []"
    using row[OF that] by (rule user_row_rated)
  have eq: "recommend_from_history st uid top_n min_ratings =
        (if filter (\<lambda>r. r_user_id r = uid) (ratings st) = [] then Inl NoHistoryError
         else if ?local = [] then Inl InsufficientDataError
         else if score_df ?M (fillna0 ?M) uid = [] then Inl NoSignalError
         else if filter (\<lambda>h. min_ratings \<le> h_num_ratings h)
                   (join_stats (score_df ?M (fillna0 ?M) uid) (movie_features_with_links st)) = []
              then Inl NoCandidatesError
         else Inr (take top_n (sort_desc score
                (filter (\<lambda>h. min_ratings \<le> h_num_ratings h)
                   (join_stats (score_df ?M (fillna0 ?M) uid)
                      (movie_features_with_links st))))))"
    using row rated
    by (simp add: recommend_from_history_def build_local_matrix_def Let_def)
  show ?thesis
    unfolding Let_def eq by (simp only: isl_def split: if_splits) auto
qed

subsection \<open>Preference scorer\<close>

lemma add_series_map:
  "add_series (map G df) (map f df) = map (\<lambda>r. map_option (\<lambda>v. v + f r) (G r)) df"
  by (induction df) (simp_all add: add_series_def)

lemma map2_self: "map2 f (map G df) df = map (\<lambda>r. f (G r) r) df"
  by (induction df) simp_all

lemma genre_boosts_closed_form:
  "genre_boosts df gw (sel, map G df) =
     (sel @ selected_of gw, map (\<lambda>r. map_option (\<lambda>v. v + boost gw r) (G r)) df)"
proof (induction gw arbitrary: sel G)
  case Nil
  have "map_option (\<lambda>v. v) = (\<lambda>x :: real option. x)" by (simp add: option.map_ident fun_eq_iff)
  then show ?case by (simp add: selected_of_def boost_def)
next
  case (Cons cw gw)
  obtain c w where cw: "cw = (c, w)" by (cases cw)
  show ?case
  proof (cases "w = 0")
    case True
    then show ?thesis by (simp add: cw Cons.IH selected_of_def boost_def)
  next
    case False
    then show ?thesis
      by (simp add: cw add_series_map Cons.IH selected_of_def boost_def option.map_comp
          comp_def add.assoc)
  qed
qed

lemma genre_match_iff: "genre_match sel r \<longleftrightarrow> (\<exists>c\<in>set sel. flag c r)"
  by (auto simp: genre_match_def filter_empty_conv)

lemma score_by_preferences_closed_form:
  "score_by_preferences df p =
     map (\<lambda>r. map_option (\<lambda>avg.
            avg + boost (genre_weights p) r
            - (if selected_of (genre_weights p) \<noteq> []
                  \<and> \<not> genre_match (selected_of (genre_weights p)) r then 3 else 0)
            - (if mask_year (year_min p) r then 0 else 2)
            + (if popularity_pref p = ''popular'' then log1p (real (num_ratings r))
               else if popularity_pref p = ''hidden''
               then max 0 ((500 - real (num_ratings r)) / 500) * 3
                    - (log1p (real (num_ratings r))
                       - Min (set (map (\<lambda>x. log1p (real (num_ratings x))) df))) * (2 / 10)
               else (log1p (real (num_ratings r))
                     - sum_list (map (\<lambda>x. log1p (real (num_ratings x))) df) / real (length df))
                    * (3 / 10)))
          (avg_rating r)) df"
proof -
  have gb: "genre_boosts df (genre_weights p) ([], map avg_rating df) =
        (selected_of (genre_weights p),
         map (\<lambda>r. map_option (\<lambda>v. v + boost (genre_weights p) r) (avg_rating r)) df)"
    using genre_boosts_closed_form[of df "genre_weights p" "[]" avg_rating] by simp
  show ?thesis
    unfolding score_by_preferences_def Let_def gb prod.case
    by (simp add: map2_self add_series_map comp_def option.map_comp algebra_simps)
qed

lemma boost_two:
  assumes "\<forall>(c, w)\<in>set gw. w = 0 \<or> w = 2"
  shows "boost gw r = 2 * real (length (filter (\<lambda>c. flag c r) (selected_of gw)))"
  using assms by (induction gw) (auto simp: boost_def selected_of_def)

text \<open>
  Claim C4. For every candidate pool and every preference profile whose selected genres
  carry weight 2.0 (the other genres 0), the preference score of a candidate is its
  average rating, plus 2.0 for each selected genre whose flag is true, minus 3.0 if at
  least one genre is selected and no selected genre's flag is true, minus 2.0 if its year
  is below the profile's minimum year (a missing year counts as below), plus the
  popularity term of the mode: \<open>log(1 + count)\<close> for \<^verbatim>\<open>popular\<close>;
  \<open>max(0, (500 - count) / 500) * 3.0 - (log(1 + count) - min over the pool) * 0.2\<close> for
  \<^verbatim>\<open>hidden\<close>; \<open>(log(1 + count) - mean over the pool) * 0.3\<close> otherwise. A candidate
  whose average rating is missing has a missing score.
\<close>

theorem preference_score_formula:
  assumes "\<forall>(c, w)\<in>set (genre_weights p). w = 0 \<or> w = 2"
  shows "score_by_preferences df p =
     (let selected = selected_of (genre_weights p);
          log_count = (\<lambda>r. ln (1 + real (num_ratings r)))
      in map (\<lambda>r. map_option (\<lambda>avg.
            avg + 2 * real (length (filter (\<lambda>c. flag c r) selected))
            - (if selected \<noteq> [] \<and> \<not> (\<exists>c\<in>set selected. flag c r) then 3 else 0)
            - (if (case year r of None \<Rightarrow> True | Some y \<Rightarrow> y < year_min p) then 2 else 0)
            + (if popularity_pref p = ''popular'' then log_count r
               else if popularity_pref p = ''hidden''
               then max 0 ((500 - real (num_ratings r)) / 500) * 3
                    - (log_count r - Min (set (map log_count df))) * (2 / 10)
               else (log_count r - sum_list (map log_count df) / real (length df)) * (3 / 10)))
          (avg_rating r)) df)"
proof -
  have yr: "(if mask_year (year_min p) r then 0 else 2) =
            (if (case year r of None \<Rightarrow> True | Some y \<Rightarrow> y < year_min p) then 2 else (0::real))"
    for r
    by (simp add: mask_year_def split: option.splits)
  show ?thesis
    unfolding score_by_preferences_closed_form Let_def
    by (simp only: boost_two[OF assms] genre_match_iff yr log1p_def)
qed

subsection \<open>Sorting a frame\<close>

lemma keyed_pairs_set:
  "set (concat (map (\<lambda>x. case key x of None \<Rightarrow> [] | Some k \<Rightarrow> [(k, x)]) xs)) =
   {(k, x). x \<in> set xs \<and> key x = Some k}"
  by (induction xs) (auto split: option.splits)


lemma set_sort_values_desc: "set (sort_values_desc key xs) = set xs"
proof -
  have "snd ` {(k, x). x \<in> set xs \<and> key x = Some k} = {x \<in> set xs. key x \<noteq> None}"
    by force
  moreover have "set (sort_values_desc key xs) =
        snd ` {(k, x). x \<in> set xs \<and> key x = Some k} \<union> {x \<in> set xs. key x = None}"
    unfolding sort_values_desc_def set_append set_map set_sort keyed_pairs_set by simp
  ultimately show ?thesis by auto
qed



subsection \<open>The stages of \<^verbatim>\<open>compute_hybrid_recs\<close>\<close>

lemma final_ordering_subset: "set (final_ordering pop_pref top_n merged) \<subseteq> set merged"
proof -
  have "set (take k (filter P (sort_values_desc final_score merged))) \<subseteq> set merged"
    for k and P :: "merged_row \<Rightarrow> bool"
    using set_take_subset[of k "filter P (sort_values_desc final_score merged)"]
    by (auto simp: set_sort_values_desc)
  moreover have "set (take k (sort_values_desc final_score merged)) \<subseteq> set merged" for k
    using set_take_subset[of k "sort_values_desc final_score merged"]
    by (auto simp: set_sort_values_desc)
  ultimately show ?thesis
    by (auto simp: final_ordering_def Let_def set_sort_values_desc)
qed

lemma kept_pairs_subset: "set (map fst (filter P (zip merged langs))) \<subseteq> set merged"
  by (auto dest: set_zip_leftD)

lemma foreign_filter_subset: "set (fst (foreign_filter e cache choice merged)) \<subseteq> set merged"
proof -
  obtain langs cache' where l: "lookup_languages e cache merged = (langs, cache')"
    by (cases "lookup_languages e cache merged")
  show ?thesis
    using kept_pairs_subset[of _ merged langs]
    by (simp add: foreign_filter_def l)
qed

lemma merge_left_movie:
  assumes "r \<in> set (merge_left candidates hist_df)"
  shows "movie r \<in> fst ` set candidates"
proof -
  from assms obtain c ps where cp: "(c, ps) \<in> set candidates"
    and r: "r \<in> set (let row = (\<lambda>hs. \<lparr> movie = c, pref_score = ps, history_score = hs,
                           history_norm = None, pref_norm = None, final_score = None \<rparr>);
                          matches = filter (\<lambda>h. h_movie_id h = movie_id c) hist_df
                      in if matches = [] then [row 0] else map (\<lambda>h. row (score h)) matches)"
    unfolding merge_left_def by auto
  from r have "movie r = c" by (auto simp: Let_def split: if_splits)
  with cp show ?thesis by force
qed

lemma scored_candidates_rows:
  assumes "scored_candidates st uid genres_chosen ymin pop_pref alpha = Inr merged"
    and "r \<in> set merged"
  shows "positive (final_score r)
         \<and> movie r \<in> set (load_candidates (movie_features_with_links st))
         \<and> movie_id (movie r) \<notin> get_user_rated_movie_ids st uid"
proof -
  let ?rated = "get_user_rated_movie_ids st uid"
  let ?c0 = "load_candidates (movie_features_with_links st)"
  let ?c1 = "if ?rated \<noteq> {} then filter (\<lambda>c. movie_id c \<notin> ?rated) ?c0 else ?c0"
  let ?c2 = "if genres_chosen \<noteq> []
             then filter (genre_match (dropna (map genre_map genres_chosen))) ?c1 else ?c1"
  from assms obtain hist_df p r0 where
    pos: "positive (final_score r)"
    and r0: "r0 \<in> set (merge_left (zip ?c2 (score_by_preferences ?c2 p)) hist_df)"
    and mv: "movie r = movie r0"
    unfolding scored_candidates_def Let_def
    by (auto split: sum.splits dest!: set_zip_leftD)
  have zipD: "z \<in> set xs" if "z \<in> fst ` set (zip xs ys)"
    for z :: movie_row and xs and ys :: "real option list"
    using that by (auto dest: set_zip_leftD)
  from merge_left_movie[OF r0] have "movie r0 \<in> set ?c2"
    by (rule zipD)
  then have c1: "movie r0 \<in> set ?c1" by (auto split: if_splits)
  then have "movie r0 \<in> set ?c0" by (auto split: if_splits)
  moreover from c1 have "movie_id (movie r0) \<notin> ?rated" by (auto split: if_splits)
  ultimately show ?thesis using pos mv by simp
qed

lemma eligible_rows:
  assumes "eligible e cache st uid genres_chosen ymin pop_pref alpha choice = Inr (merged, cache')"
    and "r \<in> set merged"
  shows "positive (final_score r)
         \<and> movie_id (movie r) \<notin> get_user_rated_movie_ids st uid"
proof -
  from assms(1) obtain m0 where
    sc: "scored_candidates st uid genres_chosen ymin pop_pref alpha = Inr m0"
    and ff: "foreign_filter e cache (if no_api_key e then ''any'' else choice) m0
             = (merged, cache')"
    by (auto simp: eligible_def Let_def split: sum.splits)
  from ff have "merged = fst (foreign_filter e cache (if no_api_key e then ''any'' else choice) m0)"
    by simp
  with assms(2) foreign_filter_subset have "r \<in> set m0" by blast
  with scored_candidates_rows[OF sc] show ?thesis by blast
qed

text \<open>
  The web path keeps the exclusion: no dictionary \<^verbatim>\<open>compute_hybrid_recs\<close> returns has
  the id of a movie the user rated.
\<close>

lemma compute_hybrid_recs_excludes_rated:
  assumes "compute_hybrid_recs e cache st uid genres_chosen ymin pop_pref alpha choice top_n
           = Inr (results, cache')"
    and "x \<in> set results"
  shows "res_movie_id x \<notin> get_user_rated_movie_ids st uid"
proof -
  from assms(1) obtain merged where
    el: "eligible e cache st uid genres_chosen ymin pop_pref alpha choice = Inr (merged, cache')"
    and res: "results = map (to_result e) (final_ordering pop_pref top_n merged)"
    by (auto simp: compute_hybrid_recs_def split: sum.splits)
  from assms(2) res obtain r where
    r: "r \<in> set (final_ordering pop_pref top_n merged)" and x: "x = to_result e r"
    by auto
  from r final_ordering_subset have "r \<in> set merged" by blast
  with eligible_rows[OF el] show ?thesis by (simp add: x to_result_def)
qed

subsection \<open>Final ordering\<close>




subsection \<open>The language gate\<close>

lemma lookup_after_lookup:
  "fst (get_original_language e (snd (get_original_language e cache t)) t') =
   fst (get_original_language e cache t')"
  by (auto simp: get_original_language_def split: option.splits tmdb_response.splits)

lemma lookup_languages_lang_of:
  assumes "\<And>t. fst (get_original_language e cache' t) = fst (get_original_language e cache t)"
  shows "fst (lookup_languages e cache' rows) = map (lang_of e cache) rows"
  using assms
proof (induction rows arbitrary: cache')
  case Nil
  then show ?case by simp
next
  case (Cons row rows)
  let ?c = "snd (get_original_language e cache' (tmdb_id (movie row)))"
  have "fst (get_original_language e ?c t) = fst (get_original_language e cache t)" for t
    using Cons.prems by (simp add: lookup_after_lookup)
  from Cons.IH[OF this] show ?case
    using Cons.prems by (simp add: lang_of_def case_prod_unfold Let_def)
qed

lemma kept_rows:
  "map fst (filter (\<lambda>(r, l). P l) (zip rows (map f rows))) = filter (\<lambda>r. P (f r)) rows"
  by (induction rows) simp_all

lemma foreign_filter_rows:
  "fst (foreign_filter e cache choice merged) =
     (if (choice = ''exclude'' \<or> choice = ''only'') \<and> (\<exists>r\<in>set merged. lang_of e cache r \<noteq> None)
      then if choice = ''exclude''
           then filter (\<lambda>r. lang_of e cache r = None \<or> lang_of e cache r = Some ''en'') merged
           else filter (\<lambda>r. lang_of e cache r \<noteq> None \<and> lang_of e cache r \<noteq> Some ''en'') merged
      else merged)"
proof -
  obtain langs cache' where l: "lookup_languages e cache merged = (langs, cache')"
    by (cases "lookup_languages e cache merged")
  have langs: "langs = map (lang_of e cache) merged"
    using lookup_languages_lang_of[of e cache cache merged] l by simp
  have some: "0 < length (filter (\<lambda>l. l \<noteq> None) langs) \<longleftrightarrow>
              (\<exists>r\<in>set merged. lang_of e cache r \<noteq> None)"
    by (auto simp: langs filter_empty_conv)
  have ex_kept: "map fst (filter (\<lambda>(r, l). l = None \<or> l = Some ''en'') (zip merged langs)) =
                 filter (\<lambda>r. lang_of e cache r = None \<or> lang_of e cache r = Some ''en'') merged"
    unfolding langs by (rule kept_rows[of "\<lambda>l. l = None \<or> l = Some ''en''"])
  have on_kept: "map fst (filter (\<lambda>(r, l). l \<noteq> None \<and> l \<noteq> Some ''en'') (zip merged langs)) =
                 filter (\<lambda>r. lang_of e cache r \<noteq> None \<and> lang_of e cache r \<noteq> Some ''en'') merged"
    unfolding langs by (rule kept_rows[of "\<lambda>l. l \<noteq> None \<and> l \<noteq> Some ''en''"])
  show ?thesis
    unfolding foreign_filter_def l Let_def prod.case ex_kept on_kept some
    by (simp only: fst_conv split: if_splits) blast
qed

text \<open>
  Claim C7. If the language lookup yields nothing for every remaining candidate, or no
  API key is configured, \<^verbatim>\<open>compute_hybrid_recs\<close> with foreign policy \<^verbatim>\<open>exclude\<close> returns
  the same outcome (the same error, or the same ordered list) as with policy \<^verbatim>\<open>any\<close>.
  When a key is configured and some lookup succeeds, a remaining candidate of unknown
  language passes the gate in \<^verbatim>\<open>exclude\<close> mode and is dropped in \<^verbatim>\<open>only\<close> mode.
\<close>

theorem language_gate_degrades:
  "(no_api_key e \<or>
      (\<forall>merged. scored_candidates st uid genres_chosen ymin pop_pref alpha = Inr merged
          \<longrightarrow> (\<forall>r\<in>set merged. lang_of e cache r = None))
    \<longrightarrow> map_sum id fst
          (compute_hybrid_recs e cache st uid genres_chosen ymin pop_pref alpha ''exclude'' top_n)
        = map_sum id fst
          (compute_hybrid_recs e cache st uid genres_chosen ymin pop_pref alpha ''any'' top_n))
   \<and> (\<forall>merged. \<not> no_api_key e
         \<and> scored_candidates st uid genres_chosen ymin pop_pref alpha = Inr merged
         \<and> (\<exists>r\<in>set merged. lang_of e cache r \<noteq> None)
       \<longrightarrow> (\<forall>r\<in>set merged. lang_of e cache r = None \<longrightarrow>
              (\<exists>rows c. eligible e cache st uid genres_chosen ymin pop_pref alpha ''exclude''
                          = Inr (rows, c) \<and> r \<in> set rows)
            \<and> (\<exists>rows c. eligible e cache st uid genres_chosen ymin pop_pref alpha ''only''
                          = Inr (rows, c) \<and> r \<notin> set rows)))"
proof (intro conjI impI allI ballI)
  assume h: "no_api_key e \<or>
      (\<forall>merged. scored_candidates st uid genres_chosen ymin pop_pref alpha = Inr merged
          \<longrightarrow> (\<forall>r\<in>set merged. lang_of e cache r = None))"
  show "map_sum id fst
          (compute_hybrid_recs e cache st uid genres_chosen ymin pop_pref alpha ''exclude'' top_n)
        = map_sum id fst
          (compute_hybrid_recs e cache st uid genres_chosen ymin pop_pref alpha ''any'' top_n)"
  proof (cases "scored_candidates st uid genres_chosen ymin pop_pref alpha")
    case (Inl err)
    then show ?thesis by (simp add: compute_hybrid_recs_def eligible_def)
  next
    case (Inr merged)
    have any: "fst (foreign_filter e cache ''any'' merged) = merged"
      by (simp add: foreign_filter_rows)
    have "fst (foreign_filter e cache (if no_api_key e then ''any'' else ''exclude'') merged)
          = merged"
      using h Inr by (auto simp: foreign_filter_rows)
    then show ?thesis
      using any by (simp add: compute_hybrid_recs_def eligible_def Inr case_prod_unfold)
  qed
next
  fix merged r
  assume a: "\<not> no_api_key e
         \<and> scored_candidates st uid genres_chosen ymin pop_pref alpha = Inr merged
         \<and> (\<exists>r\<in>set merged. lang_of e cache r \<noteq> None)"
    and r: "r \<in> set merged" and u: "lang_of e cache r = None"
  obtain rows_ex c_ex where ex: "foreign_filter e cache ''exclude'' merged = (rows_ex, c_ex)"
    by (cases "foreign_filter e cache ''exclude'' merged")
  obtain rows_on c_on where on: "foreign_filter e cache ''only'' merged = (rows_on, c_on)"
    by (cases "foreign_filter e cache ''only'' merged")
  have "rows_ex = fst (foreign_filter e cache ''exclude'' merged)" using ex by simp
  then have in_ex: "r \<in> set rows_ex"
    using a r u by (auto simp: foreign_filter_rows)
  have "rows_on = fst (foreign_filter e cache ''only'' merged)" using on by simp
  then have out_on: "r \<notin> set rows_on"
    using a r u by (auto simp: foreign_filter_rows)
  show "\<exists>rows c. eligible e cache st uid genres_chosen ymin pop_pref alpha ''exclude''
                          = Inr (rows, c) \<and> r \<in> set rows"
    using a ex in_ex by (simp add: eligible_def)
  show "\<exists>rows c. eligible e cache st uid genres_chosen ymin pop_pref alpha ''only''
                          = Inr (rows, c) \<and> r \<notin> set rows"
    using a on out_on by (simp add: eligible_def)
qed

subsection \<open>The request boundary\<close>

lemma non_finite_alpha_no_rows:
  assumes "scored_candidates st uid genres_chosen ymin pop_pref alpha = Inr merged"
    and "\<And>a. alpha \<noteq> Finite a"
  shows "merged = []"
proof -
  have bf: "blend_float alpha x y = None" for x y
  proof (cases alpha)
    case (Finite a)
    with assms(2) show ?thesis by blast
  qed (simp_all add: blend_float_def)
  from assms(1) show ?thesis
    unfolding scored_candidates_def Let_def bf
    by (auto simp: positive_def filter_empty_conv split: sum.splits)
qed

text \<open>
  Claim C9, as amended. An alpha field on which \<^verbatim>\<open>float\<close> raises \<^verbatim>\<open>ValueError\<close> is
  rejected at the request boundary: \<^verbatim>\<open>index\<close> reports the error and the core is not
  called. Every value \<^verbatim>\<open>float\<close> returns (a number inside or outside the unit interval,
  nan, an infinity) is handed to \<^verbatim>\<open>compute_hybrid_recs\<close> as parsed: \<^verbatim>\<open>index\<close> checks no
  range.
\<close>

theorem index_alpha_boundary:
  "(py_float (form_get f ''alpha'' ''0.4'') = None \<longrightarrow>
      index py_float e cache st POST f =
        (\<lparr> page_error = Some (FloatValueError (form_get f ''alpha'' ''0.4'')),
           page_results = None \<rparr>, cache))
   \<and> (\<forall>alpha. py_float (form_get f ''alpha'' ''0.4'') = Some alpha \<longrightarrow>
        (\<exists>a. request_args py_float e f = Inr a \<and> c_alpha a = alpha
           \<and> index py_float e cache st POST f =
               (case compute_hybrid_recs e cache st (MY_USER_ID e) (getlist f ''genres'')
                       (c_year_min a) (form_get f ''pop_choice'' ''mixed'') alpha
                       (form_get f ''foreign_choice'' ''any'') 10 of
                  Inl err \<Rightarrow> (\<lparr> page_error = Some (CoreError err), page_results = None \<rparr>, cache)
                | Inr (results, cache') \<Rightarrow>
                    (\<lparr> page_error = None, page_results = Some results \<rparr>, cache'))))"
  by (simp add: index_def request_args_def Let_def)

section \<open>Runs on the concrete stores\<close>

subsection \<open>The neighbourhood of user 1\<close>

lemma mk_rating_sel [simp]:
  "r_user_id (mk_rating u m v) = u" "r_movie_id (mk_rating u m v) = m"
  "r_rating (mk_rating u m v) = v"
  by (simp_all add: mk_rating_def)

lemma pivot_sel:
  "row_index (pivot_table rows) = sort (remdups (map r_user_id rows))"
  "columns (pivot_table rows) = sort (remdups (map r_movie_id rows))"
  "cell (pivot_table rows) u m =
     mean_of (map r_rating (filter (\<lambda>r. r_user_id r = u \<and> r_movie_id r = m) rows))"
  by (simp_all add: pivot_table_def)

lemma ratings_local_core:
  assumes st: "ratings st = ratings_core @ extra"
    and ex: "\<And>r. r \<in> set extra \<Longrightarrow> r_movie_id r \<noteq> 10 \<and> (r_user_id r < 1 \<or> 10 < r_user_id r)"
  shows "ratings_local st 1 3000 5 = ratings_core"
proof -
  have e1: "filter (\<lambda>r. r_user_id r = 1) extra = []"
    using ex by (fastforce simp: filter_empty_conv)
  have e2: "filter (\<lambda>r. r_movie_id r \<in> set [10] \<and> r_user_id r \<noteq> 1) extra = []"
    using ex by (fastforce simp: filter_empty_conv)
  have e3: "filter (\<lambda>r. r_user_id r \<in> set ([2, 3, 4, 5, 6, 7, 8, 9, 10] @ [1])) extra = []"
    using ex by (fastforce simp: filter_empty_conv)
  have ur: "map r_movie_id (filter (\<lambda>r. r_user_id r = 1) (ratings st)) = [10]"
    by (simp add: st e1) (simp add: ratings_core_def)
  have nb: "neighbor_ids st 1 [10] 3000 = [2, 3, 4, 5, 6, 7, 8, 9, 10]"
    unfolding neighbor_ids_def st filter_append e2 by (simp add: ratings_core_def)
  have loc: "filter (\<lambda>r. r_user_id r \<in> set ([2, 3, 4, 5, 6, 7, 8, 9, 10] @ [1])) (ratings st)
             = ratings_core"
    unfolding st filter_append e3 by (simp add: ratings_core_def)
  have cnt: "filter (\<lambda>r. 5 \<le> movie_counts ratings_core (r_movie_id r)) ratings_core
             = ratings_core"
    by (simp add: movie_counts_def ratings_core_def)
  show ?thesis
    unfolding ratings_local_def Let_def ur nb
    by (simp only: append_is_Nil_conv list.distinct simp_thms if_False loc cnt)
qed


lemma pivot_core:
  "row_index (pivot_table ratings_core) = [1, 2, 3, 4, 5, 6, 7, 8, 9, 10]"
  "columns (pivot_table ratings_core) = [10, 20]"
  by (simp_all add: pivot_sel ratings_core_def)

lemma cells_core:
  "map (\<lambda>u. cell (pivot_table ratings_core) u 10) [1, 2, 3, 4, 5, 6, 7, 8, 9, 10] =
     [Some 5, Some 5, Some 5, Some 5, Some 5, Some 5, Some 5, Some 5, Some 5, Some 5]"
  "map (\<lambda>u. cell (pivot_table ratings_core) u 20) [1, 2, 3, 4, 5, 6, 7, 8, 9, 10] =
     [None, Some 5, Some 5, Some 5, Some 5, Some 5, None, None, None, None]"
  by (simp_all add: pivot_sel ratings_core_def mean_of_def)

lemma rated_core: "rated_of (pivot_table ratings_core) 1 = [(10, 5)]"
  using cells_core by (simp add: rated_of_def pivot_core)

lemma vectors_core:
  "item_vector (fillna0 (pivot_table ratings_core)) [1, 2, 3, 4, 5, 6, 7, 8, 9, 10] 10 =
     [5, 5, 5, 5, 5, 5, 5, 5, 5, 5]"
  "item_vector (fillna0 (pivot_table ratings_core)) [1, 2, 3, 4, 5, 6, 7, 8, 9, 10] 20 =
     [0, 5, 5, 5, 5, 5, 0, 0, 0, 0]"
  using cells_core by (simp_all add: item_vector_def fillna0_def)

lemma sqrt_product: "sqrt 125 * sqrt 250 = 125 * sqrt 2"
proof -
  have "sqrt 125 * sqrt 250 = sqrt (125 * 250)"
    by (simp only: real_sqrt_mult)
  also have "(125 * 250 :: real) = 125\<^sup>2 * 2" by simp
  also have "sqrt (125\<^sup>2 * 2) = 125 * sqrt 2"
    by (simp only: real_sqrt_mult real_sqrt_abs)
  finally show ?thesis .
qed

lemma similarity_core:
  "cosine_similarity (fillna0 (pivot_table ratings_core))
         [1, 2, 3, 4, 5, 6, 7, 8, 9, 10] 20 10 * 2 = sqrt 2"
proof -
  have "cosine_similarity (fillna0 (pivot_table ratings_core))
         [1, 2, 3, 4, 5, 6, 7, 8, 9, 10] 20 10 * 2 = 250 / (sqrt 125 * sqrt 250)"
    by (simp add: cosine_similarity_def vectors_core normalize_def l2_norm_def dot_def Let_def)
  also have "\<dots> = 2 / sqrt 2" by (simp add: sqrt_product)
  also have "\<dots> = sqrt 2" using real_div_sqrt[of 2] by simp
  finally show ?thesis .
qed

lemma score_df_core:
  "score_df (pivot_table ratings_core) (fillna0 (pivot_table ratings_core)) 1
     = [(20, sqrt 2)]"
proof -
  let ?sim = "cosine_similarity (fillna0 (pivot_table ratings_core))
                [1, 2, 3, 4, 5, 6, 7, 8, 9, 10]"
  have "score_df (pivot_table ratings_core) (fillna0 (pivot_table ratings_core)) 1
        = filter (\<lambda>(j, s). 0 < s) [(20, ?sim 20 10 * 2)]"
    by (simp add: score_df_def pivot_core rated_core Let_def)
  then show ?thesis by (simp add: similarity_core)
qed

lemma mk_movie_sel [simp]:
  "movie_id (mk_movie i t a n tid) = i" "title (mk_movie i t a n tid) = t"
  "genres (mk_movie i t a n tid) = ''Drama''" "year (mk_movie i t a n tid) = Some 1999"
  "avg_rating (mk_movie i t a n tid) = Some a" "num_ratings (mk_movie i t a n tid) = n"
  "tmdb_id (mk_movie i t a n tid) = tid"
  by (simp_all add: mk_movie_def)

lemma history_core:
  assumes st: "ratings st = ratings_core @ extra"
    and ex: "\<And>r. r \<in> set extra \<Longrightarrow> r_movie_id r \<noteq> 10 \<and> (r_user_id r < 1 \<or> 10 < r_user_id r)"
  shows "recommend_from_history st 1 top_n min_ratings =
     (let kept = filter (\<lambda>h. min_ratings \<le> h_num_ratings h)
                   (join_stats [(20, sqrt 2)] (movie_features_with_links st))
      in if kept = [] then Inl NoCandidatesError else Inr (take top_n (sort_desc score kept)))"
proof -
  have u: "filter (\<lambda>r. r_user_id r = 1) (ratings st) \<noteq> []"
    by (simp add: st ratings_core_def)
  have nz: "ratings_core \<noteq> []" by (simp add: ratings_core_def)
  show ?thesis
    by (simp add: recommend_from_history_def build_local_matrix_def u
        ratings_local_core[OF st ex] nz Let_def pivot_core rated_core score_df_core)
qed

lemma extra_empty: "r \<in> set [] \<Longrightarrow> r_movie_id r \<noteq> 10 \<and> (r_user_id r < 1 \<or> 10 < r_user_id r)"
  by simp

lemma history_thin: "recommend_from_history st_thin 1 500 30 = Inl NoCandidatesError"
proof -
  have st: "ratings st_thin = ratings_core @ []" by (simp add: st_thin_def)
  have "recommend_from_history st_thin 1 500 30 =
     (let kept = filter (\<lambda>h. 30 \<le> h_num_ratings h)
                   (join_stats [(20, sqrt 2)] (movie_features_with_links st_thin))
      in if kept = [] then Inl NoCandidatesError else Inr (take 500 (sort_desc score kept)))"
    using st by (rule history_core) simp
  then show ?thesis
    by (simp add: st_thin_def join_stats_def movie_a_def)
qed


lemma others20_extra:
  "r \<in> set others20 \<Longrightarrow> r_movie_id r \<noteq> 10 \<and> (r_user_id r < 1 \<or> 10 < r_user_id r)"
  by (auto simp: others20_def)

lemma others30_extra:
  "r \<in> set others30 \<Longrightarrow> r_movie_id r \<noteq> 10 \<and> (r_user_id r < 1 \<or> 10 < r_user_id r)"
  by (auto simp: others30_def)

lemma history_seen: "0 < top_n \<Longrightarrow> recommend_from_history st_seen 1 top_n 30 = Inr [history_b]"
proof -
  assume n: "0 < top_n"
  have st: "ratings st_seen = ratings_core @ others20" by (simp add: st_seen_def)
  have "recommend_from_history st_seen 1 top_n 30 =
     (let kept = filter (\<lambda>h. 30 \<le> h_num_ratings h)
                   (join_stats [(20, sqrt 2)] (movie_features_with_links st_seen))
      in if kept = [] then Inl NoCandidatesError else Inr (take top_n (sort_desc score kept)))"
    using st others20_extra by (rule history_core)
  then show ?thesis
    using n by (simp add: st_seen_def join_stats_def movie_a_def movie_b_def sort_desc_def
        history_b_def take_Cons')
qed

lemma history_demo: "0 < top_n \<Longrightarrow> recommend_from_history st_demo 1 top_n 30 = Inr [history_b]"
proof -
  assume n: "0 < top_n"
  have st: "ratings st_demo = ratings_core @ (others20 @ others30)" by (simp add: st_demo_def)
  have ex: "r_movie_id r \<noteq> 10 \<and> (r_user_id r < 1 \<or> 10 < r_user_id r)"
    if "r \<in> set (others20 @ others30)" for r
    using that others20_extra others30_extra by auto
  have "recommend_from_history st_demo 1 top_n 30 =
     (let kept = filter (\<lambda>h. 30 \<le> h_num_ratings h)
                   (join_stats [(20, sqrt 2)] (movie_features_with_links st_demo))
      in if kept = [] then Inl NoCandidatesError else Inr (take top_n (sort_desc score kept)))"
    using st ex by (rule history_core)
  then show ?thesis
    using n by (simp add: st_demo_def join_stats_def movie_a_def movie_b_def movie_c_def
        sort_desc_def history_b_def take_Cons')
qed

subsection \<open>The command-line recommender on \<open>st_seen\<close>\<close>

lemma min_max_normalize_pair:
  assumes "a < b" "b - a \<le> 1000"
  shows "min_max_normalize [Some a, Some b] = [Some 0, Some 1]"
    and "min_max_normalize [Some b, Some a] = [Some 1, Some 0]"
proof -
  have "\<not> overflows (b - a)"
    using assms small_below_threshold[of "b - a"] by (simp add: not_overflows_iff)
  then show "min_max_normalize [Some a, Some b] = [Some 0, Some 1]"
    and "min_max_normalize [Some b, Some a] = [Some 1, Some 0]"
    using assms(1) by (simp_all add: min_max_normalize_def series_min_def series_max_def)
qed

lemma sqrt_two_small: "sqrt 2 \<le> 2"
  by (rule real_le_lsqrt) simp_all

lemma sort_values_desc_two:
  assumes "key x = Some a" "key y = Some b"
  shows "b \<le> a \<Longrightarrow> sort_values_desc key [x, y] = [x, y]"
    and "a < b \<Longrightarrow> sort_values_desc key [x, y] = [y, x]"
  using assms by (simp_all add: sort_values_desc_def)

lemma pref_b_seen_lower: "0 \<le> pref_b_seen"
proof -
  have gen: "0 \<le> 25 / 6 + 141 / 50 - (y - x) / 5" if "0 \<le> x" "y \<le> 30" for x y :: real
    using that by (simp add: field_simps)
  have "ln (31::real) \<le> 31 - 1" by (rule ln_le_minus_one) simp
  then have "ln (31::real) \<le> 30" by simp
  moreover have "0 \<le> ln (11::real)" by simp
  ultimately show ?thesis unfolding pref_b_seen_def by (intro gen)
qed

lemma pref_b_seen_less: "pref_b_seen < 397 / 50"
proof -
  have gen: "25 / 6 + 141 / 50 - (y - x) / 5 < 397 / 50" if "x \<le> y" for x y :: real
    using that by (simp add: field_simps)
  have "ln (11::real) \<le> ln 31" by simp
  then show ?thesis unfolding pref_b_seen_def by (rule gen)
qed

lemma load_seen: "load_candidates [movie_a, movie_b] = [movie_a, movie_b]"
  by (simp add: load_candidates_def movie_a_def movie_b_def mk_movie_def)

lemma flags_mk_movie [simp]: "flag c (mk_movie i t a n tid) = (c = ColDrama)"
  by (cases c) (simp_all add: mk_movie_def)

lemma prefs_seen:
  "score_by_preferences [movie_a, movie_b] prefs_hidden = [Some (397 / 50), Some pref_b_seen]"
  by (simp add: score_by_preferences_closed_form prefs_hidden_def initial_weights_def
      boost_def selected_of_def mask_year_def log1p_def movie_a_def movie_b_def
      pref_b_seen_def)

lemma pref_df_seen:
  "recommend_from_preferences st_seen prefs_hidden 50 =
     [(movie_a, Some (397 / 50)), (movie_b, Some pref_b_seen)]"
proof -
  have "sort_values_desc snd [(movie_a, Some (397 / 50 :: real)), (movie_b, Some pref_b_seen)]
        = [(movie_a, Some (397 / 50)), (movie_b, Some pref_b_seen)]"
    by (rule sort_values_desc_two(1)[where a = "397 / 50" and b = pref_b_seen])
       (use pref_b_seen_less in simp_all)
  then show ?thesis
    by (simp add: recommend_from_preferences_def st_seen_def load_seen prefs_seen Let_def)
qed


lemma movie_ids [simp]: "movie_id movie_a = 10" "movie_id movie_b = 20" "movie_id movie_c = 30"
  by (simp_all add: movie_a_def movie_b_def movie_c_def)

lemma user_ratings_core: "filter (\<lambda>r. r_user_id r = 1) ratings_core = [mk_rating 1 10 5]"
  by (simp add: ratings_core_def)

lemma rated_seen: "get_user_rated_movie_ids st_seen 1 = {10}"
proof -
  have "filter (\<lambda>r. r_user_id r = 1) others20 = []"
    using others20_extra by (fastforce simp: filter_empty_conv)
  then show ?thesis
    by (simp add: get_user_rated_movie_ids_def st_seen_def user_ratings_core)
qed

lemma merge_seen:
  "map hybrid_columns
     (merge_outer [history_b] [(movie_a, Some (397 / 50)), (movie_b, Some pref_b_seen)]) =
     [\<lparr> hy_movie_id = 10, hy_title = ''A'', hy_genres = ''Drama'', hy_avg_rating = Some 5,
        hy_num_ratings = 10, hy_history_score = 0, hy_pref_score = 397 / 50,
        hy_final_score = None \<rparr>,
      \<lparr> hy_movie_id = 20, hy_title = ''B'', hy_genres = ''Drama'',
        hy_avg_rating = Some (25 / 6), hy_num_ratings = 30, hy_history_score = sqrt 2,
        hy_pref_score = pref_b_seen, hy_final_score = None \<rparr>]"
  by (simp add: merge_outer_def history_b_def Let_def) (simp add: movie_a_def)

text \<open>
  Claim C1 asks that no item of the list \<^verbatim>\<open>recommend_hybrid\<close> returns is an item the
  user rated. On the store \<open>st_seen\<close> user 1 rated movie 10, and \<^verbatim>\<open>recommend_hybrid\<close>
  returns movie 10 in second place: the preference side (\<^verbatim>\<open>recommend_from_preferences\<close>)
  ranks the whole catalogue and the outer merge lets its rows through, while only the
  history side drops the movies already seen. The web path does drop them
  (\<open>compute_hybrid_recs_excludes_rated\<close>).
\<close>

theorem recommend_hybrid_returns_rated_item:
  "\<exists>rows. recommend_hybrid st_seen 1 prefs_hidden (3 / 10) 10 = Inr rows
      \<and> map hy_movie_id rows = [20, 10]
      \<and> map hy_final_score rows = [Some (7 / 10), Some (3 / 10)]
      \<and> 10 \<in> get_user_rated_movie_ids st_seen 1"
proof -
  have hn: "min_max_normalize [Some 0, Some (sqrt 2)] = [Some 0, Some 1]"
    by (rule min_max_normalize_pair) (use sqrt_two_small in simp_all)
  have pn: "min_max_normalize [Some (397 / 50), Some pref_b_seen] = [Some 1, Some 0]"
    by (rule min_max_normalize_pair) (use pref_b_seen_less pref_b_seen_lower in simp_all)
  have h: "recommend_from_history st_seen 1 (10 * 5) 30 = Inr [history_b]"
    by (simp add: history_seen)
  have p: "recommend_from_preferences st_seen prefs_hidden (10 * 5) =
           [(movie_a, Some (397 / 50)), (movie_b, Some pref_b_seen)]"
    by (simp add: pref_df_seen)
  show ?thesis
    unfolding recommend_hybrid_def h p sum.case Let_def merge_seen
    by (simp add: hn pn blend_opt_def blend_def positive_def sort_values_desc_def rated_seen)
qed

subsection \<open>The web recommender on \<open>st_demo\<close>\<close>

lemma rated_demo: "get_user_rated_movie_ids st_demo 1 = {10}"
proof -
  have "filter (\<lambda>r. r_user_id r = 1) others20 = []" "filter (\<lambda>r. r_user_id r = 1) others30 = []"
    using others20_extra others30_extra by (fastforce simp: filter_empty_conv)+
  then show ?thesis
    by (simp add: get_user_rated_movie_ids_def st_demo_def user_ratings_core)
qed

lemma load_demo: "load_candidates [movie_a, movie_b, movie_c] = [movie_a, movie_b, movie_c]"
  by (simp add: load_candidates_def movie_a_def movie_b_def movie_c_def mk_movie_def)

lemma prefs_demo:
  "score_by_preferences [movie_b, movie_c] prefs_hidden = [Some (524 / 75), Some (391 / 50)]"
  by (simp add: score_by_preferences_closed_form prefs_hidden_def initial_weights_def
      boost_def selected_of_def mask_year_def log1p_def movie_b_def movie_c_def)

lemma merge_left_demo:
  "merge_left [(movie_b, Some (524 / 75)), (movie_c, Some (391 / 50))] [history_b] =
     [\<lparr> movie = movie_b, pref_score = Some (524 / 75), history_score = sqrt 2,
        history_norm = None, pref_norm = None, final_score = None \<rparr>,
      \<lparr> movie = movie_c, pref_score = Some (391 / 50), history_score = 0,
        history_norm = None, pref_norm = None, final_score = None \<rparr>]"
  by (simp add: merge_left_def Let_def history_b_def)

lemma scored_demo:
  "scored_candidates st_demo 1 [] 1900 ''hidden'' (Finite (2 / 5)) = Inr [row_b, row_c]"
proof -
  have hn: "min_max_normalize [Some (sqrt 2), Some 0] = [Some 1, Some 0]"
    by (rule min_max_normalize_pair) (use sqrt_two_small in simp_all)
  have pn: "min_max_normalize [Some (524 / 75), Some (391 / 50)] = [Some 0, Some 1]"
    by (rule min_max_normalize_pair) simp_all
  have c: "filter (\<lambda>c. movie_id c \<notin> {10}) [movie_a, movie_b, movie_c] = [movie_b, movie_c]"
    by simp
  have p: "\<lparr> genre_weights = initial_weights, year_min = 1900, popularity_pref = ''hidden'' \<rparr>
           = prefs_hidden"
    by (simp add: prefs_hidden_def)
  have mfl: "movie_features_with_links st_demo = [movie_a, movie_b, movie_c]"
    by (simp add: st_demo_def)
  show ?thesis
    unfolding scored_candidates_def mfl load_demo rated_demo history_demo[of 500, simplified]
      Let_def sum.case drop_duplicates.simps filter.simps chosen_weights.simps p
    by (simp add: c prefs_demo merge_left_demo hn pn blend_float_def blend_opt_def blend_def
        positive_def row_b_def row_c_def)
qed

lemma eligible_demo_nokey:
  "eligible env_nokey Map.empty st_demo 1 [] 1900 ''hidden'' (Finite (2 / 5)) choice
     = Inr ([row_b, row_c], Map.empty)"
  by (simp add: eligible_def scored_demo no_api_key_def env_nokey_def foreign_filter_def)

lemma lang_demo:
  "lang_of env_fr Map.empty row_b = Some ''fr''" "lang_of env_fr Map.empty row_c = None"
  "lang_of env_down Map.empty row_b = None" "lang_of env_down Map.empty row_c = None"
  by (simp_all add: lang_of_def get_original_language_def no_api_key_def env_fr_def
      env_down_def row_b_def row_c_def movie_b_def movie_c_def)

lemma key_demo: "\<not> no_api_key env_fr" "\<not> no_api_key env_down" "no_api_key env_nokey"
  by (simp_all add: no_api_key_def env_fr_def env_down_def env_nokey_def)


lemma compute_demo:
  "compute_hybrid_recs env_nokey Map.empty st_demo 1 [] 1900 ''hidden'' (Finite (2 / 5)) ''any'' 10
     = Inr ([to_result env_nokey row_b, to_result env_nokey row_c], Map.empty)"
  by (simp add: compute_hybrid_recs_def eligible_demo_nokey final_ordering_def
      sort_values_desc_def Let_def row_b_def row_c_def movie_b_def movie_c_def)

text \<open>With the provider down, \<^verbatim>\<open>exclude\<close> is \<^verbatim>\<open>any\<close>; with the provider knowing that movie
  20 is French and nothing about movie 30, movie 30 passes the gate in \<^verbatim>\<open>exclude\<close> mode
  and not in \<^verbatim>\<open>only\<close> mode.\<close>

theorem language_gate_degrades_witness:
  "map_sum id fst
      (compute_hybrid_recs env_down Map.empty st_demo 1 [] 1900 ''hidden'' (Finite (2 / 5)) ''exclude'' 10)
    = map_sum id fst
      (compute_hybrid_recs env_down Map.empty st_demo 1 [] 1900 ''hidden'' (Finite (2 / 5)) ''any'' 10)
   \<and> (\<exists>rows c. eligible env_fr Map.empty st_demo 1 [] 1900 ''hidden'' (Finite (2 / 5)) ''exclude''
                  = Inr (rows, c) \<and> row_c \<in> set rows)
   \<and> (\<exists>rows c. eligible env_fr Map.empty st_demo 1 [] 1900 ''hidden'' (Finite (2 / 5)) ''only''
                  = Inr (rows, c) \<and> row_c \<notin> set rows)"
proof -
  note down = language_gate_degrades
    [of env_down st_demo 1 "[]" 1900 "''hidden''" "Finite (2 / 5)" Map.empty 10]
  note fr = language_gate_degrades
    [of env_fr st_demo 1 "[]" 1900 "''hidden''" "Finite (2 / 5)" Map.empty 10]
  have "\<forall>merged. scored_candidates st_demo 1 [] 1900 ''hidden'' (Finite (2 / 5)) = Inr merged
          \<longrightarrow> (\<forall>r\<in>set merged. lang_of env_down Map.empty r = None)"
    by (simp add: scored_demo lang_demo)
  with down have 1: "map_sum id fst
      (compute_hybrid_recs env_down Map.empty st_demo 1 [] 1900 ''hidden'' (Finite (2 / 5)) ''exclude'' 10)
    = map_sum id fst
      (compute_hybrid_recs env_down Map.empty st_demo 1 [] 1900 ''hidden'' (Finite (2 / 5)) ''any'' 10)"
    by blast
  have pre: "\<not> no_api_key env_fr
         \<and> scored_candidates st_demo 1 [] 1900 ''hidden'' (Finite (2 / 5)) = Inr [row_b, row_c]
         \<and> (\<exists>r\<in>set [row_b, row_c]. lang_of env_fr Map.empty r \<noteq> None)"
    by (simp add: key_demo scored_demo lang_demo)
  have c: "row_c \<in> set [row_b, row_c]" by simp
  from fr pre c lang_demo(2) have 2:
    "(\<exists>rows c. eligible env_fr Map.empty st_demo 1 [] 1900 ''hidden'' (Finite (2 / 5)) ''exclude''
                  = Inr (rows, c) \<and> row_c \<in> set rows)
   \<and> (\<exists>rows c. eligible env_fr Map.empty st_demo 1 [] 1900 ''hidden'' (Finite (2 / 5)) ''only''
                  = Inr (rows, c) \<and> row_c \<notin> set rows)"
    by blast
  from 1 2 show ?thesis by blast
qed

subsection \<open>The history scorer on \<open>st_thin\<close>, \<open>st_seen\<close> and \<open>st_row_missing\<close>\<close>

lemma local_thin: "ratings_local st_thin 1 3000 5 = ratings_core"
proof -
  have st: "ratings st_thin = ratings_core @ []" by (simp add: st_thin_def)
  show ?thesis using st by (rule ratings_local_core) simp
qed

text \<open>
  Against claim C2 as stated: on \<open>st_thin\<close> none of its three conditions holds (user 1 has a rating, the
  support-restricted rating set is not empty, movie 20 is unrated with the positive score
  \<open>sqrt 2\<close>), and \<^verbatim>\<open>recommend_from_history\<close> raises all the same: movie 20 has 5 ratings in
  the catalogue, below \<open>min_ratings = 30\<close>.
\<close>

theorem no_candidates_counterexample:
  "filter (\<lambda>r. r_user_id r = 1) (ratings st_thin) \<noteq> []
   \<and> ratings_local st_thin 1 3000 5 \<noteq> []
   \<and> score_df (pivot_table (ratings_local st_thin 1 3000 5))
        (fillna0 (pivot_table (ratings_local st_thin 1 3000 5))) 1 = [(20, sqrt 2)]
   \<and> recommend_from_history st_thin 1 500 30 = Inl NoCandidatesError"
  by (simp add: local_thin score_df_core history_thin)
     (simp add: st_thin_def ratings_core_def)

lemma local_seen: "ratings_local st_seen 1 3000 5 = ratings_core"
proof -
  have st: "ratings st_seen = ratings_core @ others20" by (simp add: st_seen_def)
  show ?thesis using st others20_extra by (rule ratings_local_core)
qed

text \<open>On \<open>st_seen\<close> none of the four conditions holds and the scorer returns.\<close>

theorem recommend_from_history_errors_witness:
  "recommend_from_history st_seen 1 500 30 = Inr [history_b]
   \<and> \<not> isl (recommend_from_history st_seen 1 500 30)"
proof -
  have hyp: "ratings_local st_seen 1 3000 5 = []
           \<or> (\<exists>r\<in>set (ratings_local st_seen 1 3000 5). r_user_id r = 1)"
    by (simp add: local_seen) (simp add: ratings_core_def)
  have u: "filter (\<lambda>r. r_user_id r = 1) (ratings st_seen) \<noteq> []"
    by (simp add: st_seen_def ratings_core_def)
  have k: "filter (\<lambda>h. 30 \<le> h_num_ratings h)
             (join_stats [(20, sqrt 2)] (movie_features_with_links st_seen)) = [history_b]"
    by (simp add: st_seen_def join_stats_def movie_a_def movie_b_def history_b_def)
  have nz: "ratings_core \<noteq> []" by (simp add: ratings_core_def)
  from recommend_from_history_errors[OF hyp, of 30 500]
  show ?thesis
    by (simp add: Let_def local_seen score_df_core u k nz sort_desc_def)
qed

lemma local_row_missing: "ratings_local st_row_missing 1 3000 5 =
   [mk_rating 2 20 5, mk_rating 3 20 5, mk_rating 4 20 5, mk_rating 5 20 5, mk_rating 6 20 5]"
proof -
  have ur: "map r_movie_id (filter (\<lambda>r. r_user_id r = 1) (ratings st_row_missing)) = [10, 11]"
    by (simp add: st_row_missing_def)
  have nb: "neighbor_ids st_row_missing 1 [10, 11] 3000 = [2, 3, 4, 5, 6]"
    by (simp add: neighbor_ids_def st_row_missing_def)
  have loc: "filter (\<lambda>r. r_user_id r \<in> set ([2, 3, 4, 5, 6] @ [1])) (ratings st_row_missing)
             = ratings st_row_missing"
    by (simp add: st_row_missing_def)
  have cnt: "filter (\<lambda>r. 5 \<le> movie_counts (ratings st_row_missing) (r_movie_id r))
               (ratings st_row_missing) =
             [mk_rating 2 20 5, mk_rating 3 20 5, mk_rating 4 20 5, mk_rating 5 20 5,
              mk_rating 6 20 5]"
    by (simp add: movie_counts_def st_row_missing_def)
  show ?thesis
    unfolding ratings_local_def Let_def ur nb
    by (simp only: append_is_Nil_conv list.distinct simp_thms if_False loc cnt)
qed

text \<open>
  Claim C10 asks that the target user's row is in the pivoted matrix whenever the
  support-filtered rating set is not empty. On \<open>st_row_missing\<close> user 1 has two ratings
  and the filtered set has five rows, none of user 1: the movies user 1 rated have 4 and
  3 ratings in the neighbourhood, below the local minimum of 5. The lookup
  \<^verbatim>\<open>rating_matrix.loc[user_id]\<close> raises \<^verbatim>\<open>KeyError\<close>, which no \<^verbatim>\<open>except ValueError\<close> catches;
  the test \<^verbatim>\<open>rated.empty\<close> after it is never reached.
\<close>

theorem user_row_missing_raises_keyerror:
  "filter (\<lambda>r. r_user_id r = 1) (ratings st_row_missing) \<noteq> []
   \<and> ratings_local st_row_missing 1 3000 5 \<noteq> []
   \<and> 1 \<notin> set (row_index (pivot_table (ratings_local st_row_missing 1 3000 5)))
   \<and> recommend_from_history st_row_missing 1 10 30 = Inl (RowKeyError 1)"
proof -
  have u: "filter (\<lambda>r. r_user_id r = 1) (ratings st_row_missing) \<noteq> []"
    by (simp add: st_row_missing_def)
  show ?thesis
    by (simp add: recommend_from_history_def build_local_matrix_def local_row_missing u
        Let_def pivot_sel)
qed

subsection \<open>The preference scorer and the request boundary\<close>

theorem preference_score_formula_witness:
  "score_by_preferences [movie_b, movie_c] prefs_drama = [Some (524 / 75), Some (391 / 50)]"
proof -
  have hyp: "\<forall>(c, w)\<in>set (genre_weights prefs_drama). w = 0 \<or> w = 2"
    by (simp add: prefs_drama_def)
  show ?thesis
    unfolding preference_score_formula[OF hyp]
    by (simp add: prefs_drama_def selected_of_def movie_b_def movie_c_def)
qed

lemma round_overflow_small:
  assumes "\<bar>v\<bar> \<le> 1000"
  shows "round_overflow v = Finite v"
proof -
  have "v \<le> 1000" "- v \<le> 1000" using assms by linarith+
  then have "v < overflow_threshold" "- v < overflow_threshold"
    by (simp_all add: small_below_threshold)
  then have "\<not> overflow_threshold \<le> v" "\<not> v \<le> - overflow_threshold" by linarith+
  then show ?thesis by (simp add: round_overflow_def)
qed

lemmas float_rules = py_float_ascii_def strip_def is_space_def same_word_def lower_code_def
  floatnumber_def split_at_def number_def exponent_def digitpart_def is_digit_def
  decimal_value_def round_overflow_small Let_def

lemma float_of_fields:
  "py_float_ascii ''0.4'' = Some (Finite (2 / 5))"
  "py_float_ascii ''1.5'' = Some (Finite (3 / 2))"
  "py_float_ascii ''high'' = None"
  "py_float_ascii ''nan'' = Some NaN"
  "py_float_ascii ''inf'' = Some PosInf"
  by (simp_all add: float_rules)

text \<open>A request whose alpha is the word \<open>high\<close> is rejected; a request with alpha 0.4
  reaches the core.\<close>

theorem index_alpha_boundary_witness:
  "index py_float_ascii env_nokey Map.empty st_demo POST [(''alpha'', ''high'')] =
     (\<lparr> page_error = Some (FloatValueError ''high''), page_results = None \<rparr>, Map.empty)
   \<and> index py_float_ascii env_nokey Map.empty st_demo POST
        [(''alpha'', ''0.4''), (''pop_choice'', ''hidden'')] =
     (\<lparr> page_error = None,
        page_results = Some [to_result env_nokey row_b, to_result env_nokey row_c] \<rparr>,
      Map.empty)"
proof -
  let ?f = "[(''alpha'', ''0.4''), (''pop_choice'', ''hidden'')]"
  have a: "py_float_ascii (form_get [(''alpha'', ''high'')] ''alpha'' ''0.4'') = None"
    by (simp add: form_get_def getlist_def float_of_fields)
  have b: "py_float_ascii (form_get ?f ''alpha'' ''0.4'') = Some (Finite (2 / 5))"
    by (simp add: form_get_def getlist_def float_of_fields)
  note t1 = index_alpha_boundary[of py_float_ascii "[(''alpha'', ''high'')]" env_nokey
              Map.empty st_demo]
  note t2 = index_alpha_boundary[of py_float_ascii ?f env_nokey Map.empty st_demo]
  from t1 a have 1: "index py_float_ascii env_nokey Map.empty st_demo POST [(''alpha'', ''high'')] =
     (\<lparr> page_error = Some (FloatValueError ''high''), page_results = None \<rparr>, Map.empty)"
    by (simp add: form_get_def getlist_def)
  have uid: "MY_USER_ID env_nokey = 1" by (simp add: env_nokey_def)
  have f: "getlist ?f ''genres'' = []"
    "form_get ?f ''pop_choice'' ''mixed'' = ''hidden''"
    "form_get ?f ''foreign_choice'' ''any'' = ''any''"
    "form_get ?f ''year_choice'' ''any'' = ''any''"
    by (simp_all add: form_get_def getlist_def)
  from t2 b obtain a where
    ra: "request_args py_float_ascii env_nokey ?f = Inr a"
    and ix: "index py_float_ascii env_nokey Map.empty st_demo POST ?f =
             (case compute_hybrid_recs env_nokey Map.empty st_demo (MY_USER_ID env_nokey)
                     (getlist ?f ''genres'') (c_year_min a)
                     (form_get ?f ''pop_choice'' ''mixed'') (Finite (2 / 5))
                     (form_get ?f ''foreign_choice'' ''any'') 10 of
                Inl err \<Rightarrow> (\<lparr> page_error = Some (CoreError err), page_results = None \<rparr>,
                            Map.empty)
              | Inr (results, cache') \<Rightarrow>
                  (\<lparr> page_error = None, page_results = Some results \<rparr>, cache'))"
    by blast
  from ra have "c_year_min a = 1900"
    by (auto simp: request_args_def Let_def f split: option.splits)
  with ix have 2: "index py_float_ascii env_nokey Map.empty st_demo POST ?f =
     (\<lparr> page_error = None,
        page_results = Some [to_result env_nokey row_b, to_result env_nokey row_c] \<rparr>,
      Map.empty)"
    by (simp add: uid f compute_demo)
  from 1 2 show ?thesis by simp
qed

text \<open>
  Against claim C9 as stated, which asks that an alpha outside the unit interval is
  rejected before the core is called: the request with alpha 1.5 parses, and \<^verbatim>\<open>index\<close>
  calls \<^verbatim>\<open>compute_hybrid_recs\<close> with alpha 1.5.
\<close>

theorem alpha_out_of_range_counterexample:
  "py_float_ascii ''1.5'' = Some (Finite (3 / 2))
   \<and> \<not> ((0::real) \<le> 3 / 2 \<and> (3 / 2 :: real) \<le> 1)
   \<and> request_args py_float_ascii env_nokey [(''alpha'', ''1.5'')] =
       Inr \<lparr> c_user_id = 1, c_genres_chosen = [], c_year_min = 1900,
             c_popularity_pref = ''mixed'', c_alpha = Finite (3 / 2), c_foreign_choice = ''any'',
             c_top_n = 10 \<rparr>
   \<and> index py_float_ascii env_nokey Map.empty st_demo POST [(''alpha'', ''1.5'')] =
       (case compute_hybrid_recs env_nokey Map.empty st_demo 1 [] 1900 ''mixed''
               (Finite (3 / 2)) ''any'' 10 of
          Inl err \<Rightarrow> (\<lparr> page_error = Some (CoreError err), page_results = None \<rparr>, Map.empty)
        | Inr (results, cache') \<Rightarrow>
            (\<lparr> page_error = None, page_results = Some results \<rparr>, cache'))"
  by (simp add: index_def request_args_def form_get_def getlist_def float_of_fields
      Let_def env_nokey_def)

text \<open>The word \<open>nan\<close> is not a number and is not rejected either: \<^verbatim>\<open>float\<close> returns nan,
  the core is called with it, every final score is nan and the list comes back empty.\<close>

lemma nan_alpha_reaches_core:
  "index py_float_ascii env_nokey Map.empty st_demo POST [(''alpha'', ''nan'')] =
     (\<lparr> page_error = None, page_results = Some [] \<rparr>, Map.empty)"
proof -
  have h: "recommend_from_history st_demo 1 500 30 = Inr [history_b]"
    by (rule history_demo) simp
  obtain merged where
    sc: "scored_candidates st_demo 1 [] 1900 ''mixed'' NaN = Inr merged"
    by (auto simp: scored_candidates_def Let_def h)
  then have "merged = []" by (rule non_finite_alpha_no_rows) simp
  with sc have "compute_hybrid_recs env_nokey Map.empty st_demo 1 [] 1900 ''mixed'' NaN ''any'' 10
        = Inr ([], Map.empty)"
    by (simp add: compute_hybrid_recs_def eligible_def foreign_filter_def final_ordering_def
        sort_values_desc_def)
  then show ?thesis
    by (simp add: index_def request_args_def form_get_def getlist_def float_of_fields
        Let_def env_nokey_def)
qed

end
